theory Spec2Isabelle
  imports Complex_Main "HOL-Library.AList"
begin

section \<open>JavaScript values, event parameters and OSC messages\<close>

text \<open>
  The library mirrors the state of a Bitwig session (\<^verbatim>\<open>lib/song.js\<close>, \<^verbatim>\<open>lib/track.js\<close>,
  \<^verbatim>\<open>lib/clip.js\<close>). Inbound payloads are stored as they arrive, so a mirrored field holds
  an arbitrary JavaScript value; a property that was never assigned reads \<^verbatim>\<open>undefined\<close>.
  Payload numbers are never computed with, only stored and forwarded.

  The transport (\<^verbatim>\<open>osc-receiver\<close>, \<^verbatim>\<open>osc-emitter\<close>) and Node's \<^verbatim>\<open>EventEmitter\<close> are
  libraries: the receiver is the table of registered listeners, and what is handed to
  the OSC emitter and to the event emitters is kept as two logs. The logging wrappers of
  \<^verbatim>\<open>debug\<close> mode are left out. Observers of events only read.
\<close>

datatype jsval = JUndefined | JBool bool | JNum real | JStr string

text \<open>The truthiness test of \<^verbatim>\<open>if (forceOn)\<close> and \<^verbatim>\<open>if (state)\<close>.\<close>

fun truthy :: "jsval \<Rightarrow> bool" where
  "truthy JUndefined = False"
| "truthy (JBool b) = b"
| "truthy (JNum r) = (r \<noteq> 0)"
| "truthy (JStr s) = (s \<noteq> [])"

text \<open>A listener declared with one parameter reads the first positional argument;
  a missing argument is \<^verbatim>\<open>undefined\<close>.\<close>

fun arg0 :: "jsval list \<Rightarrow> jsval" where
  "arg0 [] = JUndefined"
| "arg0 (v # vs) = v"

text \<open>An event parameter object such as \<^verbatim>\<open>{value: v, prev: p}\<close>: its properties in
  insertion order. \<^verbatim>\<open>_.extend(destination, source)\<close> copies every property of the source
  onto the destination.\<close>

type_synonym params = "(string \<times> jsval) list"

definition underscore_extend :: "params \<Rightarrow> params \<Rightarrow> params" where
  "underscore_extend destination source = fold (\<lambda>(k, v). AList.update k v) source destination"

definition get_prop :: "string \<Rightarrow> params \<Rightarrow> jsval" where
  "get_prop k ps = (case map_of ps k of None \<Rightarrow> JUndefined | Some v \<Rightarrow> v)"

text \<open>An outbound OSC argument is a bare value (\<^verbatim>\<open>emit('/play', 1)\<close>) or a typed pair
  \<^verbatim>\<open>{type: 'integer', value: v}\<close>.\<close>

datatype osc_type = OInteger | OFloat | OString

datatype osc_arg = Bare jsval | Typed osc_type jsval

type_synonym osc_msg = "string \<times> osc_arg list"

text \<open>String concatenation with a number: ids, send numbers and scene numbers are
  non-negative integers (\<^verbatim>\<open>i + 1\<close> for tracks, the loop index for clips and sends),
  printed in decimal.\<close>

definition digit :: "nat \<Rightarrow> char" where
  "digit d = ''0123456789'' ! (d mod 10)"

fun show_nat :: "nat \<Rightarrow> string" where
  "show_nat n = (if n < 10 then [digit n] else show_nat (n div 10) @ [digit n])"

declare show_nat.simps [simp del]

section \<open>The mirrored objects\<close>

text \<open>
  Clip objects live in a store and are referred to by their position in it: a listener
  closure and the \<^verbatim>\<open>clips\<close> array of a track both hold references to the same object.
  \<open>c_track\<close> is the back-reference \<^verbatim>\<open>this.track\<close>, the position of the owning track in
  \<^verbatim>\<open>song.tracks\<close>.
\<close>

record clip =
  c_id :: nat
  c_track :: nat
  c_index :: jsval
  c_isSelected :: jsval
  c_hasContent :: jsval
  c_isPlaying :: jsval
  c_isRecording :: jsval
  c_isQueued :: jsval

record send =
  send_name :: jsval
  send_volume :: jsval

record fxparam =
  fx_name :: jsval
  fx_value :: jsval

text \<open>\<open>t_name\<close>, \<open>t_vu\<close> and \<open>t_numScenes\<close> are not assigned by the constructor.
  \<open>t_numScenes\<close> is a scene count once \<^verbatim>\<open>setNumScenes\<close> has run. The \<^verbatim>\<open>devices\<close>
  array is never read or written again and is left out.\<close>

record track =
  t_id :: nat
  t_clips :: "nat list"
  t_sends :: "send list"
  t_solo :: jsval
  t_mute :: jsval
  t_recarm :: jsval
  t_volume :: jsval
  t_pan :: jsval
  t_selected :: jsval
  t_name :: jsval
  t_vu :: jsval
  t_numScenes :: "nat option"

text \<open>The master-bus properties \<open>solo\<close>, \<open>mute\<close>, \<open>recarm\<close> and \<open>selected\<close> are
  not assigned by the constructor either.\<close>

record song =
  tracks :: "track list"
  fxparams :: "fxparam list"
  volume :: jsval
  pan :: jsval
  click :: jsval
  playing :: jsval
  recording :: jsval
  selectedTrack :: jsval
  solo :: jsval
  mute :: jsval
  recarm :: jsval
  selected :: jsval

section \<open>Event emitters, listeners and the OSC4Bitwig instance\<close>

datatype emitter = SongEvents | TrackEvents nat | ClipEvents nat

text \<open>One call of \<^verbatim>\<open>eventEmitter.emit(ev, params)\<close>. Node runs the observers inside the
  call, so \<open>seen\<close> records the objects as an observer finds them when it reads them
  back at that moment.\<close>

record emission =
  source :: emitter
  ev :: string
  params :: params
  seen :: "song \<times> clip list"

datatype song_field =
  S_playing | S_recording | S_click | S_solo | S_mute | S_recarm | S_volume | S_pan | S_selected

datatype track_field =
  T_solo | T_recarm | T_mute | T_volume | T_pan | T_name | T_vu | T_selected

datatype clip_field =
  C_index | C_isSelected | C_hasContent | C_isPlaying | C_isRecording | C_isQueued

text \<open>The closures handed to \<^verbatim>\<open>bitwig.receiver.on\<close>, with what each one captures: the
  track position, the clip reference, the send or device parameter number.\<close>

datatype listener =
  SongListener song_field
| TrackListener nat track_field
| SendNameListener nat nat
| SendVolumeListener nat nat
| ClipListener nat clip_field
| FxNameListener nat
| FxValueListener nat

datatype error = TypeError | NoSuchObject

record bitwig =
  song :: song
  store :: "clip list"
  receiver :: "(string \<times> listener) list"
  emitted :: "emission list"
  sent :: "osc_msg list"

text \<open>A call either returns, or throws after the effects it already had.\<close>

type_synonym outcome = "(error \<times> bitwig) + bitwig"

definition emit :: "emitter \<Rightarrow> string \<Rightarrow> params \<Rightarrow> bitwig \<Rightarrow> bitwig" where
  "emit e name ps w =
     w\<lparr>emitted := emitted w @ [\<lparr>source = e, ev = name, params = ps, seen = (song w, store w)\<rparr>]\<rparr>"

definition osc_emit :: "string \<Rightarrow> osc_arg list \<Rightarrow> bitwig \<Rightarrow> bitwig" where
  "osc_emit address args w = w\<lparr>sent := sent w @ [(address, args)]\<rparr>"

definition on :: "string \<Rightarrow> listener \<Rightarrow> bitwig \<Rightarrow> bitwig" where
  "on address l w = w\<lparr>receiver := receiver w @ [(address, l)]\<rparr>"

section \<open>Inbound listeners\<close>

subsection \<open>Song\<close>

text \<open>The nine listeners of the \<^verbatim>\<open>Song\<close> constructor (\<^verbatim>\<open>playListener\<close> \<dots>
  \<^verbatim>\<open>selectedListener\<close>) have one shape: emit on the song's event emitter, then assign.
  The tables give, for each, the property it mirrors, the event name and the address.\<close>

fun song_get :: "song_field \<Rightarrow> song \<Rightarrow> jsval" where
  "song_get S_playing s = playing s"
| "song_get S_recording s = recording s"
| "song_get S_click s = click s"
| "song_get S_solo s = solo s"
| "song_get S_mute s = mute s"
| "song_get S_recarm s = recarm s"
| "song_get S_volume s = volume s"
| "song_get S_pan s = pan s"
| "song_get S_selected s = selected s"

fun song_put :: "song_field \<Rightarrow> jsval \<Rightarrow> song \<Rightarrow> song" where
  "song_put S_playing v s = s\<lparr>playing := v\<rparr>"
| "song_put S_recording v s = s\<lparr>recording := v\<rparr>"
| "song_put S_click v s = s\<lparr>click := v\<rparr>"
| "song_put S_solo v s = s\<lparr>solo := v\<rparr>"
| "song_put S_mute v s = s\<lparr>mute := v\<rparr>"
| "song_put S_recarm v s = s\<lparr>recarm := v\<rparr>"
| "song_put S_volume v s = s\<lparr>volume := v\<rparr>"
| "song_put S_pan v s = s\<lparr>pan := v\<rparr>"
| "song_put S_selected v s = s\<lparr>selected := v\<rparr>"

fun song_event :: "song_field \<Rightarrow> string" where
  "song_event S_playing = ''play''"
| "song_event S_recording = ''record''"
| "song_event S_click = ''click''"
| "song_event S_solo = ''solo''"
| "song_event S_mute = ''mute''"
| "song_event S_recarm = ''recarm''"
| "song_event S_volume = ''volume''"
| "song_event S_pan = ''pan''"
| "song_event S_selected = ''selected''"

fun song_address :: "song_field \<Rightarrow> string" where
  "song_address S_playing = ''/play''"
| "song_address S_recording = ''/record''"
| "song_address S_click = ''/click''"
| "song_address S_solo = ''/master/solo''"
| "song_address S_mute = ''/master/mute''"
| "song_address S_recarm = ''/master/recarm''"
| "song_address S_volume = ''/master/volume''"
| "song_address S_pan = ''/master/pan''"
| "song_address S_selected = ''/master/selected''"

definition song_listener :: "song_field \<Rightarrow> jsval \<Rightarrow> bitwig \<Rightarrow> bitwig" where
  "song_listener f v w =
     (let w1 = emit SongEvents (song_event f) [(''value'', v), (''prev'', song_get f (song w))] w
      in w1\<lparr>song := song_put f v (song w1)\<rparr>)"

subsection \<open>Track\<close>

fun track_get :: "track_field \<Rightarrow> track \<Rightarrow> jsval" where
  "track_get T_solo t = t_solo t"
| "track_get T_recarm t = t_recarm t"
| "track_get T_mute t = t_mute t"
| "track_get T_volume t = t_volume t"
| "track_get T_pan t = t_pan t"
| "track_get T_name t = t_name t"
| "track_get T_vu t = t_vu t"
| "track_get T_selected t = t_selected t"

fun track_put :: "track_field \<Rightarrow> jsval \<Rightarrow> track \<Rightarrow> track" where
  "track_put T_solo v t = t\<lparr>t_solo := v\<rparr>"
| "track_put T_recarm v t = t\<lparr>t_recarm := v\<rparr>"
| "track_put T_mute v t = t\<lparr>t_mute := v\<rparr>"
| "track_put T_volume v t = t\<lparr>t_volume := v\<rparr>"
| "track_put T_pan v t = t\<lparr>t_pan := v\<rparr>"
| "track_put T_name v t = t\<lparr>t_name := v\<rparr>"
| "track_put T_vu v t = t\<lparr>t_vu := v\<rparr>"
| "track_put T_selected v t = t\<lparr>t_selected := v\<rparr>"

text \<open>For a track the property, the event and the last segment of the address share
  one name.\<close>

fun track_field_name :: "track_field \<Rightarrow> string" where
  "track_field_name T_solo = ''solo''"
| "track_field_name T_recarm = ''recarm''"
| "track_field_name T_mute = ''mute''"
| "track_field_name T_volume = ''volume''"
| "track_field_name T_pan = ''pan''"
| "track_field_name T_name = ''name''"
| "track_field_name T_vu = ''vu''"
| "track_field_name T_selected = ''selected''"

definition upd_track :: "nat \<Rightarrow> (track \<Rightarrow> track) \<Rightarrow> bitwig \<Rightarrow> bitwig" where
  "upd_track p g w =
     w\<lparr>song := (song w)\<lparr>tracks := (tracks (song w))[p := g (tracks (song w) ! p)]\<rparr>\<rparr>"

text \<open>\<^verbatim>\<open>Track.prototype.emitEvent\<close>: the track's own emitter first, then the song's
  emitter under \<^verbatim>\<open>'track:' + ev\<close> with the track id added.\<close>

definition Track_emitEvent :: "nat \<Rightarrow> string \<Rightarrow> params \<Rightarrow> bitwig \<Rightarrow> bitwig" where
  "Track_emitEvent p name ps w =
     (let w1 = emit (TrackEvents p) name ps w
      in emit SongEvents (''track:'' @ name)
           (underscore_extend [(''id'', JNum (of_nat (t_id (tracks (song w1) ! p))))] ps) w1)"

text \<open>\<^verbatim>\<open>soloListener\<close>, \<^verbatim>\<open>recarmListener\<close>, \<^verbatim>\<open>muteListener\<close>, \<^verbatim>\<open>volumeListener\<close>,
  \<^verbatim>\<open>panListener\<close>, \<^verbatim>\<open>nameListener\<close>, \<^verbatim>\<open>vuListener\<close>, \<^verbatim>\<open>selectedListener\<close>.\<close>

definition track_listener :: "nat \<Rightarrow> track_field \<Rightarrow> jsval \<Rightarrow> bitwig \<Rightarrow> bitwig" where
  "track_listener p f v w =
     (let w1 = Track_emitEvent p (track_field_name f)
                 [(''value'', v), (''prev'', track_get f (tracks (song w) ! p))] w
      in upd_track p (track_put f v) w1)"

text \<open>\<^verbatim>\<open>sendNameListener(i, name)\<close> and \<^verbatim>\<open>sendVolumeListener(i, volume)\<close>: \<open>prev\<close> is
  read from \<^verbatim>\<open>self.name\<close> and \<^verbatim>\<open>self.volume\<close>. Assigning a property of
  \<^verbatim>\<open>self.sends[i]\<close> throws when there is no such send.\<close>

definition sendNameListener :: "nat \<Rightarrow> nat \<Rightarrow> jsval \<Rightarrow> bitwig \<Rightarrow> outcome" where
  "sendNameListener p i name w =
     (let w1 = Track_emitEvent p ''sendName''
                 [(''num'', JNum (of_nat i)), (''value'', name),
                  (''prev'', t_name (tracks (song w) ! p))] w
      in if i < length (t_sends (tracks (song w1) ! p))
         then Inr (upd_track p
                (\<lambda>t. t\<lparr>t_sends := (t_sends t)[i := (t_sends t ! i)\<lparr>send_name := name\<rparr>]\<rparr>) w1)
         else Inl (TypeError, w1))"

definition sendVolumeListener :: "nat \<Rightarrow> nat \<Rightarrow> jsval \<Rightarrow> bitwig \<Rightarrow> outcome" where
  "sendVolumeListener p i vol w =
     (let w1 = Track_emitEvent p ''sendVolume''
                 [(''num'', JNum (of_nat i)), (''value'', vol),
                  (''prev'', t_volume (tracks (song w) ! p))] w
      in if i < length (t_sends (tracks (song w1) ! p))
         then Inr (upd_track p
                (\<lambda>t. t\<lparr>t_sends := (t_sends t)[i := (t_sends t ! i)\<lparr>send_volume := vol\<rparr>]\<rparr>) w1)
         else Inl (TypeError, w1))"

subsection \<open>Device parameters\<close>

text \<open>The two anonymous listeners of the \<^verbatim>\<open>Song\<close> constructor's loop: a plain assignment.\<close>

definition fxNameListener :: "nat \<Rightarrow> jsval \<Rightarrow> bitwig \<Rightarrow> outcome" where
  "fxNameListener i name w =
     (if i < length (fxparams (song w))
      then Inr (w\<lparr>song := (song w)\<lparr>fxparams :=
                 (fxparams (song w))[i := (fxparams (song w) ! i)\<lparr>fx_name := name\<rparr>]\<rparr>\<rparr>)
      else Inl (TypeError, w))"

definition fxValueListener :: "nat \<Rightarrow> jsval \<Rightarrow> bitwig \<Rightarrow> outcome" where
  "fxValueListener i v w =
     (if i < length (fxparams (song w))
      then Inr (w\<lparr>song := (song w)\<lparr>fxparams :=
                 (fxparams (song w))[i := (fxparams (song w) ! i)\<lparr>fx_value := v\<rparr>]\<rparr>\<rparr>)
      else Inl (TypeError, w))"

subsection \<open>Clip\<close>

fun clip_get :: "clip_field \<Rightarrow> clip \<Rightarrow> jsval" where
  "clip_get C_index c = c_index c"
| "clip_get C_isSelected c = c_isSelected c"
| "clip_get C_hasContent c = c_hasContent c"
| "clip_get C_isPlaying c = c_isPlaying c"
| "clip_get C_isRecording c = c_isRecording c"
| "clip_get C_isQueued c = c_isQueued c"

fun clip_put :: "clip_field \<Rightarrow> jsval \<Rightarrow> clip \<Rightarrow> clip" where
  "clip_put C_index v c = c\<lparr>c_index := v\<rparr>"
| "clip_put C_isSelected v c = c\<lparr>c_isSelected := v\<rparr>"
| "clip_put C_hasContent v c = c\<lparr>c_hasContent := v\<rparr>"
| "clip_put C_isPlaying v c = c\<lparr>c_isPlaying := v\<rparr>"
| "clip_put C_isRecording v c = c\<lparr>c_isRecording := v\<rparr>"
| "clip_put C_isQueued v c = c\<lparr>c_isQueued := v\<rparr>"

fun clip_field_name :: "clip_field \<Rightarrow> string" where
  "clip_field_name C_index = ''index''"
| "clip_field_name C_isSelected = ''isSelected''"
| "clip_field_name C_hasContent = ''hasContent''"
| "clip_field_name C_isPlaying = ''isPlaying''"
| "clip_field_name C_isRecording = ''isRecording''"
| "clip_field_name C_isQueued = ''isQueued''"

text \<open>\<^verbatim>\<open>Clip.prototype.emitEvent\<close>: the clip's own emitter first, then the song's emitter
  under \<^verbatim>\<open>'clip:' + ev\<close> with the clip id and the id of its track added.\<close>

definition Clip_emitEvent :: "nat \<Rightarrow> string \<Rightarrow> params \<Rightarrow> bitwig \<Rightarrow> bitwig" where
  "Clip_emitEvent r name ps w =
     (let w1 = emit (ClipEvents r) name ps w;
          this = store w1 ! r
      in emit SongEvents (''clip:'' @ name)
           (underscore_extend [(''id'', JNum (of_nat (c_id this))),
                    (''trackId'', JNum (of_nat (t_id (tracks (song w1) ! c_track this))))] ps) w1)"

text \<open>\<^verbatim>\<open>indexListener\<close>, \<^verbatim>\<open>isSelectedListener\<close>, \<^verbatim>\<open>hasContentListener\<close>,
  \<^verbatim>\<open>isPlayingListener\<close>, \<^verbatim>\<open>isRecordingListener\<close>, \<^verbatim>\<open>isQueuedListener\<close>.\<close>

definition clip_listener :: "nat \<Rightarrow> clip_field \<Rightarrow> jsval \<Rightarrow> bitwig \<Rightarrow> bitwig" where
  "clip_listener r f v w =
     (let w1 = Clip_emitEvent r (clip_field_name f)
                 [(''value'', v), (''prev'', clip_get f (store w ! r))] w
      in w1\<lparr>store := (store w1)[r := clip_put f v (store w1 ! r)]\<rparr>)"

subsection \<open>Dispatch of an inbound message\<close>

text \<open>A closure always has the object it captured. In the model a reference is a
  position, and a listener whose object does not exist stops with \<open>NoSuchObject\<close>.\<close>

fun run_listener :: "listener \<Rightarrow> jsval list \<Rightarrow> bitwig \<Rightarrow> outcome" where
  "run_listener (SongListener f) args w = Inr (song_listener f (arg0 args) w)"
| "run_listener (TrackListener p f) args w =
     (if p < length (tracks (song w)) then Inr (track_listener p f (arg0 args) w)
      else Inl (NoSuchObject, w))"
| "run_listener (SendNameListener p i) args w =
     (if p < length (tracks (song w)) then sendNameListener p i (arg0 args) w
      else Inl (NoSuchObject, w))"
| "run_listener (SendVolumeListener p i) args w =
     (if p < length (tracks (song w)) then sendVolumeListener p i (arg0 args) w
      else Inl (NoSuchObject, w))"
| "run_listener (ClipListener r f) args w =
     (if r < length (store w) \<and> c_track (store w ! r) < length (tracks (song w))
      then Inr (clip_listener r f (arg0 args) w)
      else Inl (NoSuchObject, w))"
| "run_listener (FxNameListener i) args w = fxNameListener i (arg0 args) w"
| "run_listener (FxValueListener i) args w = fxValueListener i (arg0 args) w"

text \<open>The receiver calls the listeners registered for the literal address, in the
  order of registration; a listener that throws ends the dispatch.\<close>

fun run_all :: "listener list \<Rightarrow> jsval list \<Rightarrow> bitwig \<Rightarrow> outcome" where
  "run_all [] args w = Inr w"
| "run_all (l # ls) args w =
     (case run_listener l args w of Inl e \<Rightarrow> Inl e | Inr w' \<Rightarrow> run_all ls args w')"

definition handlers :: "string \<Rightarrow> (string \<times> listener) list \<Rightarrow> listener list" where
  "handlers address table = map snd (filter (\<lambda>entry. fst entry = address) table)"

definition deliver :: "string \<Rightarrow> jsval list \<Rightarrow> bitwig \<Rightarrow> outcome" where
  "deliver address args w = run_all (handlers address (receiver w)) args w"

section \<open>Inbound addresses\<close>

text \<open>The address strings the constructors build by concatenation:
  \<^verbatim>\<open>'/track/' + self.id + '/solo'\<close>,
  \<^verbatim>\<open>'/track/' + self.id + '/send/' + i + '/name'\<close>,
  \<^verbatim>\<open>'/track/' + self.track.id + '/slot/' + self.id + '/index'\<close>,
  \<^verbatim>\<open>'/fxparam/' + (i + 1) + '/name'\<close>.\<close>

definition track_address :: "nat \<Rightarrow> track_field \<Rightarrow> string" where
  "track_address tid f = ''/track/'' @ show_nat tid @ ''/'' @ track_field_name f"

definition send_address :: "nat \<Rightarrow> nat \<Rightarrow> string \<Rightarrow> string" where
  "send_address tid i what = ''/track/'' @ show_nat tid @ ''/send/'' @ show_nat i @ ''/'' @ what"

definition clip_address :: "nat \<Rightarrow> nat \<Rightarrow> clip_field \<Rightarrow> string" where
  "clip_address tid i f =
     ''/track/'' @ show_nat tid @ ''/slot/'' @ show_nat i @ ''/'' @ clip_field_name f"

definition fxparam_address :: "nat \<Rightarrow> string \<Rightarrow> string" where
  "fxparam_address n what = ''/fxparam/'' @ show_nat n @ ''/'' @ what"

section \<open>Constructors\<close>

text \<open>\<^verbatim>\<open>new Clip(bitwig, track, id)\<close>: allocates the object with its default properties and
  registers six listeners, at addresses built from \<^verbatim>\<open>self.track.id\<close> and \<^verbatim>\<open>self.id\<close>.
  Returns the reference to the new clip.\<close>

definition Clip_init :: "nat \<Rightarrow> nat \<Rightarrow> clip" where
  "Clip_init p i =
     \<lparr>c_id = i, c_track = p, c_index = JNum 0, c_isSelected = JBool False,
      c_hasContent = JBool False, c_isPlaying = JBool False,
      c_isRecording = JBool False, c_isQueued = JBool False\<rparr>"

definition Clip_new :: "nat \<Rightarrow> nat \<Rightarrow> bitwig \<Rightarrow> nat \<times> bitwig" where
  "Clip_new p i w =
     (let self = length (store w);
          w1 = w\<lparr>store := store w @ [Clip_init p i]\<rparr>
      in (self,
          fold (\<lambda>f. on (clip_address (t_id (tracks (song w1) ! p)) i f) (ClipListener self f))
            [C_index, C_isSelected, C_hasContent, C_isPlaying, C_isRecording, C_isQueued] w1))"

text \<open>\<^verbatim>\<open>new Track(bitwig, id)\<close>. The object is allocated at the next position of
  \<^verbatim>\<open>song.tracks\<close>, where the \<^verbatim>\<open>Song\<close> constructor stores it (\<^verbatim>\<open>self.tracks[i] = new Track\<close>
  with \<^verbatim>\<open>i\<close> counting from 0). \<^verbatim>\<open>nameListener\<close> is defined by the constructor and registered
  nowhere; the registration of \<^verbatim>\<open>sendListener\<close> is commented out.\<close>

definition Track_init :: "nat \<Rightarrow> track" where
  "Track_init tid =
     \<lparr>t_id = tid, t_clips = [], t_sends = [], t_solo = JNum 0, t_mute = JNum 0,
      t_recarm = JBool False, t_volume = JNum 0, t_pan = JNum 0, t_selected = JNum 0,
      t_name = JUndefined, t_vu = JUndefined, t_numScenes = None\<rparr>"

definition Send_init :: send where
  "Send_init = \<lparr>send_name = JStr [], send_volume = JNum 0\<rparr>"

text \<open>The bodies of the constructor's two loops: \<^verbatim>\<open>_.each(_.range(6), \<dots>)\<close> creates send
  \<^verbatim>\<open>i\<close> and registers its two listeners, \<^verbatim>\<open>_.each(_.range(8), \<dots>)\<close> stores a new clip
  in \<^verbatim>\<open>self.clips[i]\<close>.\<close>

definition Track_new_send :: "nat \<Rightarrow> nat \<Rightarrow> bitwig \<Rightarrow> bitwig" where
  "Track_new_send self i w =
     on (send_address (t_id (tracks (song w) ! self)) i ''volume'') (SendVolumeListener self i)
    (on (send_address (t_id (tracks (song w) ! self)) i ''name'') (SendNameListener self i)
    (upd_track self (\<lambda>t. t\<lparr>t_sends := t_sends t @ [Send_init]\<rparr>) w))"

definition Track_new_clip :: "nat \<Rightarrow> nat \<Rightarrow> bitwig \<Rightarrow> bitwig" where
  "Track_new_clip self i w =
     (case Clip_new self i w of
        (c, w') \<Rightarrow> upd_track self (\<lambda>t. t\<lparr>t_clips := t_clips t @ [c]\<rparr>) w')"

definition Track_new :: "nat \<Rightarrow> bitwig \<Rightarrow> bitwig" where
  "Track_new tid w =
     (let self = length (tracks (song w));
          w1 = w\<lparr>song := (song w)\<lparr>tracks := tracks (song w) @ [Track_init tid]\<rparr>\<rparr>;
          w2 = fold (\<lambda>f. on (track_address (t_id (tracks (song w1) ! self)) f)
                            (TrackListener self f))
                 [T_solo, T_recarm, T_mute, T_pan, T_volume, T_vu, T_selected] w1;
          w3 = fold (Track_new_send self) [0..<6] w2
      in fold (Track_new_clip self) [0..<8] w3)"

text \<open>\<^verbatim>\<open>new Song(bitwig)\<close>, called by \<^verbatim>\<open>new OSC4Bitwig(opts)\<close> once the receiver and the
  emitter exist. Nothing has been emitted or sent when the constructor returns.\<close>

definition Fxparam_init :: fxparam where
  "Fxparam_init = \<lparr>fx_name = JStr [], fx_value = JNum 0\<rparr>"

text \<open>The body of the constructor's loop over \<^verbatim>\<open>_.range(8)\<close>: track \<^verbatim>\<open>i + 1\<close>, device
  parameter \<^verbatim>\<open>i\<close> and its two listeners.\<close>

definition Song_new_slot :: "nat \<Rightarrow> bitwig \<Rightarrow> bitwig" where
  "Song_new_slot i w =
     (let w3 = Track_new (i + 1) w;
          w4 = w3\<lparr>song := (song w3)\<lparr>fxparams := fxparams (song w3) @ [Fxparam_init]\<rparr>\<rparr>
      in on (fxparam_address (i + 1) ''value'') (FxValueListener i)
        (on (fxparam_address (i + 1) ''name'') (FxNameListener i) w4))"

definition Song_new :: "bitwig \<Rightarrow> bitwig" where
  "Song_new w =
     (let w1 = w\<lparr>song := \<lparr>tracks = [], fxparams = [], volume = JNum 0, pan = JNum 0,
                   click = JNum 0, playing = JNum 0, recording = JNum 0,
                   selectedTrack = JNum 0, solo = JUndefined, mute = JUndefined,
                   recarm = JUndefined, selected = JUndefined\<rparr>\<rparr>;
          w2 = fold (\<lambda>f. on (song_address f) (SongListener f))
                 [S_playing, S_recording, S_click, S_solo, S_mute, S_recarm, S_volume,
                  S_pan, S_selected] w1
      in fold Song_new_slot [0..<8] w2)"

definition OSC4Bitwig_new :: bitwig where
  "OSC4Bitwig_new =
     Song_new \<lparr>song = \<lparr>tracks = [], fxparams = [], volume = JUndefined, pan = JUndefined,
                 click = JUndefined, playing = JUndefined, recording = JUndefined,
                 selectedTrack = JUndefined, solo = JUndefined, mute = JUndefined,
                 recarm = JUndefined, selected = JUndefined\<rparr>,
               store = [], receiver = [], emitted = [], sent = []\<rparr>"

section \<open>Outbound methods\<close>

definition Song_stop :: "bitwig \<Rightarrow> bitwig" where
  "Song_stop w = osc_emit ''/stop'' [Bare (JNum 1)] w"

definition Song_play :: "bitwig \<Rightarrow> bitwig" where
  "Song_play w = osc_emit ''/play'' [Bare (JNum 1)] w"

definition Song_record :: "bitwig \<Rightarrow> bitwig" where
  "Song_record w = osc_emit ''/record'' [] w"

definition Song_loop :: "jsval \<Rightarrow> bitwig \<Rightarrow> bitwig" where
  "Song_loop forceOn w =
     (if truthy forceOn then osc_emit ''/repeat'' [Bare (JNum 1)] w
      else osc_emit ''/repeat'' [] w)"

definition Song_setClick :: "jsval \<Rightarrow> bitwig \<Rightarrow> bitwig" where
  "Song_setClick state w =
     (if truthy state then osc_emit ''/click'' [Bare (JNum 1)] w
      else osc_emit ''/click'' [] w)"

definition Song_launchScene :: "nat \<Rightarrow> bitwig \<Rightarrow> bitwig" where
  "Song_launchScene scene w = osc_emit (''/scene/'' @ show_nat scene @ ''/launch'') [] w"

definition Song_setVolume :: "jsval \<Rightarrow> bitwig \<Rightarrow> bitwig" where
  "Song_setVolume v w = osc_emit ''/master/volume'' [Typed OInteger v] w"

definition Song_setPan :: "jsval \<Rightarrow> bitwig \<Rightarrow> bitwig" where
  "Song_setPan v w = osc_emit ''/master/pan'' [Typed OInteger v] w"

definition Song_setTempo :: "jsval \<Rightarrow> bitwig \<Rightarrow> bitwig" where
  "Song_setTempo tempo w = osc_emit ''/tempo/raw'' [Typed OInteger tempo] w"

definition Song_setTime :: "jsval \<Rightarrow> bitwig \<Rightarrow> bitwig" where
  "Song_setTime time w = osc_emit ''/time'' [Typed OInteger time] w"

definition Song_toggleFxBypass :: "bitwig \<Rightarrow> bitwig" where
  "Song_toggleFxBypass w = osc_emit ''/fx/bypass'' [] w"

definition Song_select :: "bitwig \<Rightarrow> bitwig" where
  "Song_select w = osc_emit ''/master/select'' [] w"

text \<open>The methods of a track take the position of \<^verbatim>\<open>this\<close> in \<^verbatim>\<open>song.tracks\<close>.\<close>

definition Track_setName :: "nat \<Rightarrow> jsval \<Rightarrow> bitwig \<Rightarrow> bitwig" where
  "Track_setName this name w =
     osc_emit (''/track/'' @ show_nat (t_id (tracks (song w) ! this)) @ ''/name'')
       [Typed OString name] w"

definition Track_setRecarm :: "nat \<Rightarrow> jsval \<Rightarrow> bitwig \<Rightarrow> bitwig" where
  "Track_setRecarm this v w =
     osc_emit (''/track/'' @ show_nat (t_id (tracks (song w) ! this)) @ ''/arm'')
       [Typed OInteger v] w"

definition Track_setSolo :: "nat \<Rightarrow> jsval \<Rightarrow> bitwig \<Rightarrow> bitwig" where
  "Track_setSolo this v w =
     osc_emit (''/track/'' @ show_nat (t_id (tracks (song w) ! this)) @ ''/solo'')
       [Typed OInteger v] w"

definition Track_setMute :: "nat \<Rightarrow> jsval \<Rightarrow> bitwig \<Rightarrow> bitwig" where
  "Track_setMute this v w =
     osc_emit (''/track/'' @ show_nat (t_id (tracks (song w) ! this)) @ ''/mute'')
       [Typed OInteger v] w"

definition Track_setVolume :: "nat \<Rightarrow> jsval \<Rightarrow> bitwig \<Rightarrow> bitwig" where
  "Track_setVolume this v w =
     osc_emit (''/track/'' @ show_nat (t_id (tracks (song w) ! this)) @ ''/volume'')
       [Typed OInteger v] w"

definition Track_setPan :: "nat \<Rightarrow> jsval \<Rightarrow> bitwig \<Rightarrow> bitwig" where
  "Track_setPan this v w =
     osc_emit (''/track/'' @ show_nat (t_id (tracks (song w) ! this)) @ ''/pan'')
       [Typed OFloat v] w"

definition Track_setSendName :: "nat \<Rightarrow> nat \<Rightarrow> jsval \<Rightarrow> bitwig \<Rightarrow> bitwig" where
  "Track_setSendName this snd_no name w =
     osc_emit (''/track/'' @ show_nat (t_id (tracks (song w) ! this)) @ ''/send/'' @
               show_nat snd_no @ ''/name'')
       [Typed OString name] w"

definition Track_view :: "nat \<Rightarrow> bitwig \<Rightarrow> bitwig" where
  "Track_view this w =
     osc_emit ''/track/#/track/view''
       [Typed OInteger (JNum (of_nat (t_id (tracks (song w) ! this))))] w"

definition Track_setNumScenes :: "nat \<Rightarrow> nat \<Rightarrow> bitwig \<Rightarrow> bitwig" where
  "Track_setNumScenes this numScenes w = upd_track this (\<lambda>t. t\<lparr>t_numScenes := Some numScenes\<rparr>) w"

text \<open>\<^verbatim>\<open>Clip.prototype.launch\<close>, on the clip with reference \<open>this\<close>.\<close>

definition Clip_launch :: "nat \<Rightarrow> bitwig \<Rightarrow> bitwig" where
  "Clip_launch this w =
     osc_emit (''/track/'' @ show_nat (t_id (tracks (song w) ! c_track (store w ! this))) @
               ''/clip/'' @ show_nat (c_id (store w ! this) + 1) @ ''/launch'') [] w"

subsection \<open>Clip refresh\<close>

text \<open>The loop test \<^verbatim>\<open>i < this.numScenes\<close>: false while \<^verbatim>\<open>numScenes\<close> is undefined.\<close>

fun below :: "nat \<Rightarrow> nat option \<Rightarrow> bool" where
  "below i None = False"
| "below i (Some n) = (i < n)"

function refresh_loop :: "nat \<Rightarrow> nat option \<Rightarrow> nat \<Rightarrow> bitwig \<Rightarrow> bitwig" where
  "refresh_loop this numScenes i w =
     (if below i numScenes
      then (case Clip_new this i w of
              (c, w1) \<Rightarrow>
                refresh_loop this numScenes (i + 1)
                  (osc_emit ''/track/#/clip/info''
                     [Typed OInteger (JNum (of_nat (t_id (tracks (song w1) ! this)))),
                      Typed OInteger (JNum (of_nat i))]
                     (upd_track this (\<lambda>t. t\<lparr>t_clips := t_clips t @ [c]\<rparr>) w1)))
      else w)"
  by pat_completeness auto
termination
proof (relation "measure (\<lambda>(this, numScenes, i, w). (case numScenes of None \<Rightarrow> 0 | Some n \<Rightarrow> n - i))")
  show "wf (measure (\<lambda>(this, numScenes, i, w). (case numScenes of None \<Rightarrow> 0 | Some n \<Rightarrow> n - i)))"
    by simp
next
  fix this :: nat and numScenes :: "nat option" and i :: nat and w x :: bitwig and c :: nat
  assume "below i numScenes"
  then show "((this, numScenes, i + 1,
               osc_emit ''/track/#/clip/info''
                 [Typed OInteger (JNum (of_nat (t_id (tracks (song x) ! this)))),
                  Typed OInteger (JNum (of_nat i))]
                 (upd_track this (\<lambda>t. t\<lparr>t_clips := t_clips t @ [c]\<rparr>) x)),
              (this, numScenes, i, w))
             \<in> measure (\<lambda>(this, numScenes, i, w). (case numScenes of None \<Rightarrow> 0 | Some n \<Rightarrow> n - i))"
    by (cases numScenes) auto
qed

declare refresh_loop.simps [simp del]

text \<open>\<^verbatim>\<open>Track.prototype.refreshClips\<close>. \<^verbatim>\<open>Clip.prototype\<close> has \<^verbatim>\<open>launch\<close>, \<^verbatim>\<open>on\<close> and
  \<^verbatim>\<open>emitEvent\<close> and no \<^verbatim>\<open>destroy\<close>: the call \<^verbatim>\<open>clip.destroy()\<close> on the first existing clip
  throws a TypeError, before anything has been changed.\<close>

definition Track_refreshClips :: "nat \<Rightarrow> bitwig \<Rightarrow> outcome" where
  "Track_refreshClips this w =
     (if t_clips (tracks (song w) ! this) \<noteq> [] then Inl (TypeError, w)
      else Inr (refresh_loop this (t_numScenes (tracks (song w) ! this)) 0
                  (upd_track this (\<lambda>t. t\<lparr>t_clips := []\<rparr>) w)))"

section \<open>Operations on a constructed instance\<close>

text \<open>The outbound methods of \<^verbatim>\<open>Song\<close>, \<^verbatim>\<open>Track\<close> and \<^verbatim>\<open>Clip\<close> as commands, and
  with inbound messages, \<^verbatim>\<open>setNumScenes\<close> and \<^verbatim>\<open>refreshClips\<close> the actions an
  application and the transport can take on an instance.\<close>

datatype command =
  Stop | Play | Record | Loop jsval | SetClick jsval | LaunchScene nat
| SetVolume jsval | SetPan jsval | SetTempo jsval | SetTime jsval | ToggleFxBypass | Select
| TrackSetName nat jsval | TrackSetRecarm nat jsval | TrackSetSolo nat jsval
| TrackSetMute nat jsval | TrackSetVolume nat jsval | TrackSetPan nat jsval
| TrackSetSendName nat nat jsval | TrackView nat | ClipLaunch nat

fun invoke :: "command \<Rightarrow> bitwig \<Rightarrow> bitwig" where
  "invoke Stop w = Song_stop w"
| "invoke Play w = Song_play w"
| "invoke Record w = Song_record w"
| "invoke (Loop forceOn) w = Song_loop forceOn w"
| "invoke (SetClick state) w = Song_setClick state w"
| "invoke (LaunchScene scene) w = Song_launchScene scene w"
| "invoke (SetVolume v) w = Song_setVolume v w"
| "invoke (SetPan v) w = Song_setPan v w"
| "invoke (SetTempo v) w = Song_setTempo v w"
| "invoke (SetTime v) w = Song_setTime v w"
| "invoke ToggleFxBypass w = Song_toggleFxBypass w"
| "invoke Select w = Song_select w"
| "invoke (TrackSetName p v) w = Track_setName p v w"
| "invoke (TrackSetRecarm p v) w = Track_setRecarm p v w"
| "invoke (TrackSetSolo p v) w = Track_setSolo p v w"
| "invoke (TrackSetMute p v) w = Track_setMute p v w"
| "invoke (TrackSetVolume p v) w = Track_setVolume p v w"
| "invoke (TrackSetPan p v) w = Track_setPan p v w"
| "invoke (TrackSetSendName p i v) w = Track_setSendName p i v w"
| "invoke (TrackView p) w = Track_view p w"
| "invoke (ClipLaunch c) w = Clip_launch c w"

text \<open>A method is called on an object that exists: \<^verbatim>\<open>song.tracks[p]\<close> for a track,
  a clip of the store (with its track) for a clip.\<close>

fun has_target :: "command \<Rightarrow> bitwig \<Rightarrow> bool" where
  "has_target (TrackSetName p v) w = (p < length (tracks (song w)))"
| "has_target (TrackSetRecarm p v) w = (p < length (tracks (song w)))"
| "has_target (TrackSetSolo p v) w = (p < length (tracks (song w)))"
| "has_target (TrackSetMute p v) w = (p < length (tracks (song w)))"
| "has_target (TrackSetVolume p v) w = (p < length (tracks (song w)))"
| "has_target (TrackSetPan p v) w = (p < length (tracks (song w)))"
| "has_target (TrackSetSendName p i v) w = (p < length (tracks (song w)))"
| "has_target (TrackView p) w = (p < length (tracks (song w)))"
| "has_target (ClipLaunch c) w =
     (c < length (store w) \<and> c_track (store w ! c) < length (tracks (song w)))"
| "has_target other w = True"

datatype action =
  Inbound string "jsval list"
| Call command
| SetNumScenes nat nat
| RefreshClips nat

fun step :: "action \<Rightarrow> bitwig \<Rightarrow> outcome" where
  "step (Inbound address args) w = deliver address args w"
| "step (Call c) w = (if has_target c w then Inr (invoke c w) else Inl (TypeError, w))"
| "step (SetNumScenes p n) w =
     (if p < length (tracks (song w)) then Inr (Track_setNumScenes p n w)
      else Inl (TypeError, w))"
| "step (RefreshClips p) w =
     (if p < length (tracks (song w)) then Track_refreshClips p w else Inl (TypeError, w))"

text \<open>The instance as the caller finds it after a call, returned or thrown.\<close>

fun state_after :: "outcome \<Rightarrow> bitwig" where
  "state_after (Inl (e, w)) = w"
| "state_after (Inr w) = w"

definition run :: "action list \<Rightarrow> bitwig \<Rightarrow> bitwig" where
  "run acts w = fold (\<lambda>a w. state_after (step a w)) acts w"

definition returns :: "outcome \<Rightarrow> bool" where
  "returns r = (case r of Inl e \<Rightarrow> False | Inr w \<Rightarrow> True)"

text \<open>The emissions between two states, and the same without the snapshots.\<close>

definition new_emissions :: "bitwig \<Rightarrow> bitwig \<Rightarrow> emission list" where
  "new_emissions w w' = drop (length (emitted w)) (emitted w')"

definition events_since :: "bitwig \<Rightarrow> bitwig \<Rightarrow> (emitter \<times> string \<times> params) list" where
  "events_since w w' = map (\<lambda>e. (source e, ev e, params e)) (new_emissions w w')"

text \<open>An address is registered when the receiver has a listener for it.\<close>

definition registered :: "string \<Rightarrow> bitwig \<Rightarrow> bool" where
  "registered address w = (handlers address (receiver w) \<noteq> [])"

text \<open>What an observer of an emission finds when it reads a property back during the
  call of \<^verbatim>\<open>emit\<close>: a property of the song, of the track at position \<open>p\<close>, of the clip
  with reference \<open>c\<close>.\<close>

definition song_seen :: "song_field \<Rightarrow> emission \<Rightarrow> jsval" where
  "song_seen f e = song_get f (fst (seen e))"

definition track_seen :: "nat \<Rightarrow> track_field \<Rightarrow> emission \<Rightarrow> jsval" where
  "track_seen p f e = track_get f (tracks (fst (seen e)) ! p)"

definition clip_seen :: "nat \<Rightarrow> clip_field \<Rightarrow> emission \<Rightarrow> jsval" where
  "clip_seen c f e = clip_get f (snd (seen e) ! c)"

section \<open>The constructed instance in closed form\<close>

text \<open>What the constructors register, written as tables: for the clip with reference
  \<open>c\<close> and id \<open>i\<close> on the track with id \<open>tid\<close>, for send \<open>i\<close> and for the properties of
  the track at position \<open>p\<close>, for device parameter \<open>i\<close>, and for the song. \<open>wiring\<close> is
  the receiver of a new instance (lemma \<open>OSC4Bitwig_new_eq\<close>).\<close>

definition clip_table :: "nat \<Rightarrow> nat \<Rightarrow> nat \<Rightarrow> (string \<times> listener) list" where
  "clip_table tid i c =
     map (\<lambda>f. (clip_address tid i f, ClipListener c f))
       [C_index, C_isSelected, C_hasContent, C_isPlaying, C_isRecording, C_isQueued]"

definition send_table :: "nat \<Rightarrow> nat \<Rightarrow> nat \<Rightarrow> (string \<times> listener) list" where
  "send_table tid p i =
     [(send_address tid i ''name'', SendNameListener p i),
      (send_address tid i ''volume'', SendVolumeListener p i)]"

definition field_table :: "nat \<Rightarrow> nat \<Rightarrow> (string \<times> listener) list" where
  "field_table tid p =
     map (\<lambda>f. (track_address tid f, TrackListener p f))
       [T_solo, T_recarm, T_mute, T_pan, T_volume, T_vu, T_selected]"

definition track_table :: "nat \<Rightarrow> nat \<Rightarrow> nat \<Rightarrow> (string \<times> listener) list" where
  "track_table tid p c0 =
     field_table tid p @ concat (map (send_table tid p) [0..<6]) @
     concat (map (\<lambda>i. clip_table tid i (c0 + i)) [0..<8])"

definition fx_table :: "nat \<Rightarrow> (string \<times> listener) list" where
  "fx_table i =
     [(fxparam_address (i + 1) ''name'', FxNameListener i),
      (fxparam_address (i + 1) ''value'', FxValueListener i)]"

definition song_table :: "(string \<times> listener) list" where
  "song_table =
     map (\<lambda>f. (song_address f, SongListener f))
       [S_playing, S_recording, S_click, S_solo, S_mute, S_recarm, S_volume, S_pan, S_selected]"

definition wiring :: "(string \<times> listener) list" where
  "wiring = song_table @ concat (map (\<lambda>i. track_table (i + 1) i (8 * i) @ fx_table i) [0..<8])"

text \<open>A track as its constructor leaves it: six sends, and eight clips whose references
  start at \<open>c0\<close>.\<close>

definition Track_built :: "nat \<Rightarrow> nat \<Rightarrow> track" where
  "Track_built tid c0 =
     (Track_init tid)\<lparr>t_clips := map (\<lambda>i. c0 + i) [0..<8], t_sends := replicate 6 Send_init\<rparr>"

text \<open>The part of an instance that no operation is meant to change: the registered
  listeners, the ids, which clips belong to which track, and the number of sends and
  device parameters. An instance is \<open>wired\<close> when this part is as the constructor left it.\<close>

definition frame ::
  "bitwig \<Rightarrow> (string \<times> listener) list \<times> nat list \<times> nat list list \<times> nat list \<times> nat \<times> nat list \<times> nat list"
  where
  "frame w =
     (receiver w, map t_id (tracks (song w)), map t_clips (tracks (song w)),
      map (\<lambda>t. length (t_sends t)) (tracks (song w)), length (fxparams (song w)),
      map c_id (store w), map c_track (store w))"

definition wired :: "bitwig \<Rightarrow> bool" where
  "wired w = (frame w = frame OSC4Bitwig_new)"

text \<open>The ids of the objects of \<open>w\<close> are still the same in \<open>w'\<close>.\<close>

definition ids_kept :: "bitwig \<Rightarrow> bitwig \<Rightarrow> bool" where
  "ids_kept w w' =
     (map t_id (tracks (song w')) = map t_id (tracks (song w)) \<and>
      take (length (store w)) (map c_id (store w')) = map c_id (store w))"

section \<open>Construction\<close>

lemma Clip_new_eq:
  "Clip_new p i w =
     (length (store w),
      w\<lparr>store := store w @ [Clip_init p i],
        receiver := receiver w @ clip_table (t_id (tracks (song w) ! p)) i (length (store w))\<rparr>)"
  by (simp add: Clip_new_def clip_table_def on_def Let_def)

lemma clips_loop:
  assumes "p < length (tracks (song w))"
  shows "fold (Track_new_clip p) [0..<n] w =
     w\<lparr>song := (song w)\<lparr>tracks := (tracks (song w))[p := (tracks (song w) ! p)
              \<lparr>t_clips := t_clips (tracks (song w) ! p) @ map (\<lambda>i. length (store w) + i) [0..<n]\<rparr>]\<rparr>,
       store := store w @ map (Clip_init p) [0..<n],
       receiver := receiver w @
         concat (map (\<lambda>i. clip_table (t_id (tracks (song w) ! p)) i (length (store w) + i)) [0..<n])\<rparr>"
    (is "_ = ?R n")
proof (induction n)
  case 0
  show ?case by simp
next
  case (Suc n)
  have "fold (Track_new_clip p) [0..<Suc n] w = Track_new_clip p n (fold (Track_new_clip p) [0..<n] w)"
    by simp
  also have "\<dots> = Track_new_clip p n (?R n)"
    by (simp only: Suc)
  also have "\<dots> = ?R (Suc n)"
    using assms by (simp add: Track_new_clip_def Clip_new_eq upd_track_def)
  finally show ?case .
qed

lemma sends_loop:
  assumes "p < length (tracks (song w))"
  shows "fold (Track_new_send p) [0..<n] w =
     w\<lparr>song := (song w)\<lparr>tracks := (tracks (song w))[p := (tracks (song w) ! p)
              \<lparr>t_sends := t_sends (tracks (song w) ! p) @ replicate n Send_init\<rparr>]\<rparr>,
       receiver := receiver w @
         concat (map (send_table (t_id (tracks (song w) ! p)) p) [0..<n])\<rparr>"
    (is "_ = ?R n")
proof (induction n)
  case 0
  show ?case by simp
next
  case (Suc n)
  have "fold (Track_new_send p) [0..<Suc n] w = Track_new_send p n (fold (Track_new_send p) [0..<n] w)"
    by simp
  also have "\<dots> = Track_new_send p n (?R n)"
    by (simp only: Suc)
  also have "\<dots> = ?R (Suc n)"
    using assms by (simp add: Track_new_send_def upd_track_def on_def send_table_def replicate_append_same)
  finally show ?case .
qed

lemma Track_new_eq:
  "Track_new tid w =
     w\<lparr>song := (song w)\<lparr>tracks := tracks (song w) @ [Track_built tid (length (store w))]\<rparr>,
       store := store w @ map (Clip_init (length (tracks (song w)))) [0..<8],
       receiver := receiver w @ track_table tid (length (tracks (song w))) (length (store w))\<rparr>"
  by (simp add: Track_new_def Let_def clips_loop sends_loop on_def field_table_def track_table_def Track_built_def Track_init_def)

lemma slots_loop:
  "fold Song_new_slot [0..<n] w =
     w\<lparr>song := (song w)\<lparr>tracks := tracks (song w) @
                map (\<lambda>i. Track_built (i + 1) (length (store w) + 8 * i)) [0..<n],
              fxparams := fxparams (song w) @ replicate n Fxparam_init\<rparr>,
       store := store w @
                concat (map (\<lambda>i. map (Clip_init (length (tracks (song w)) + i)) [0..<8]) [0..<n]),
       receiver := receiver w @
                concat (map (\<lambda>i. track_table (i + 1) (length (tracks (song w)) + i)
                                    (length (store w) + 8 * i) @ fx_table i) [0..<n])\<rparr>"
    (is "_ = ?R n")
proof (induction n)
  case 0
  show ?case by simp
next
  case (Suc n)
  have len: "length (concat (map (\<lambda>i. map (Clip_init (length (tracks (song w)) + i)) [0..<8]) [0..<n])) = 8 * n"
    by (induction n) simp_all
  have "fold Song_new_slot [0..<Suc n] w = Song_new_slot n (fold Song_new_slot [0..<n] w)"
    by simp
  also have "\<dots> = Song_new_slot n (?R n)"
    by (simp only: Suc)
  also have "\<dots> = ?R (Suc n)"
    by (simp add: Song_new_slot_def Track_new_eq on_def fx_table_def Let_def len replicate_append_same)
  finally show ?case .
qed

lemma OSC4Bitwig_new_eq:
  "OSC4Bitwig_new =
     \<lparr>song = \<lparr>tracks = map (\<lambda>i. Track_built (i + 1) (8 * i)) [0..<8],
              fxparams = replicate 8 Fxparam_init, volume = JNum 0, pan = JNum 0,
                   click = JNum 0, playing = JNum 0, recording = JNum 0,
                   selectedTrack = JNum 0, solo = JUndefined, mute = JUndefined,
                   recarm = JUndefined, selected = JUndefined\<rparr>,
      store = concat (map (\<lambda>i. map (Clip_init i) [0..<8]) [0..<8]),
      receiver = wiring,
      emitted = [], sent = []\<rparr>"
  by (simp add: OSC4Bitwig_new_def Song_new_def Let_def slots_loop on_def song_table_def wiring_def)

section \<open>Which listener an address reaches\<close>

lemma show_nat_digit: "n < 10 \<Longrightarrow> show_nat n = [digit n]"
  by (simp add: show_nat.simps)

lemma digit_cases: "d < 10 \<Longrightarrow> d \<in> {0, 1, 2, 3, 4, 5, 6, 7, 8, 9 :: nat}"
  by auto

lemma digit_inj: "a < 10 \<Longrightarrow> b < 10 \<Longrightarrow> (digit a = digit b) = (a = b)"
  using digit_cases [of a] digit_cases [of b]
  by (auto simp: digit_def)

lemma handlers_append: "handlers a (xs @ ys) = handlers a xs @ handlers a ys"
  by (simp add: handlers_def)

lemma handlers_concat: "handlers a (concat xss) = concat (map (handlers a) xss)"
  by (induction xss) (simp_all add: handlers_def)

lemma handlers_Cons: "handlers a ((b, l) # xs) = (if b = a then l # handlers a xs else handlers a xs)"
  by (simp add: handlers_def)

lemma handlers_Nil: "handlers a [] = []"
  by (simp add: handlers_def)

lemma concat_map_single:
  "p < n \<Longrightarrow> (\<And>q. q < n \<Longrightarrow> g q = (if q = p then xs else [])) \<Longrightarrow> concat (map g [0..<n]) = xs"
proof (induction n)
  case 0
  then show ?case by simp
next
  case (Suc n)
  show ?case
  proof (cases "p = n")
    case True
    have "concat (map g [0..<n]) = []"
      using Suc.prems(2) True by (simp add: concat_eq_Nil_conv)
    then show ?thesis using Suc.prems(2) [of n] True by simp
  next
    case False
    then have "p < n" using Suc.prems(1) by simp
    then have "concat (map g [0..<n]) = xs"
      using Suc.IH Suc.prems(2) by simp
    then show ?thesis using Suc.prems(2) [of n] False by simp
  qed
qed

lemma concat_map_none:
  "(\<And>q. q < n \<Longrightarrow> g q = []) \<Longrightarrow> concat (map g [0..<n]) = []"
  by (simp add: concat_eq_Nil_conv)

lemmas addr_defs = track_address_def send_address_def clip_address_def fxparam_address_def

subsection \<open>Track property addresses\<close>

lemma tf_field_table:
  "p < 8 \<Longrightarrow> q < 8 \<Longrightarrow>
   handlers (track_address (Suc p) f) (field_table (Suc q) q) =
     (if q = p \<and> f \<noteq> T_name then [TrackListener q f] else [])"
  by (cases f) (auto simp: field_table_def addr_defs handlers_Cons handlers_Nil show_nat_digit digit_inj)

lemma tf_send_table:
  "p < 8 \<Longrightarrow> q < 8 \<Longrightarrow> i < 6 \<Longrightarrow>
   handlers (track_address (Suc p) f) (send_table (Suc q) q i) = []"
  by (cases f) (auto simp: send_table_def addr_defs handlers_Cons handlers_Nil show_nat_digit digit_inj)

lemma tf_clip_table:
  "p < 8 \<Longrightarrow> q < 8 \<Longrightarrow> i < 8 \<Longrightarrow>
   handlers (track_address (Suc p) f) (clip_table (Suc q) i c) = []"
  by (cases f) (auto simp: clip_table_def addr_defs handlers_Cons handlers_Nil show_nat_digit digit_inj)

lemma tf_fx_table:
  "handlers (track_address (Suc p) f) (fx_table q) = []"
  by (auto simp: fx_table_def addr_defs handlers_Cons handlers_Nil)

lemma tf_song_table:
  "handlers (track_address (Suc p) f) song_table = []"
  by (auto simp: song_table_def addr_defs handlers_Cons handlers_Nil)

lemma handlers_wiring:
  assumes "handlers a song_table = []" and "p < 8"
    and "\<And>q. q < 8 \<Longrightarrow>
           handlers a (track_table (q + 1) q (8 * q) @ fx_table q) = (if q = p then xs else [])"
  shows "handlers a wiring = xs"
proof -
  have "handlers a wiring =
        handlers a song_table @
        concat (map (\<lambda>q. handlers a (track_table (q + 1) q (8 * q) @ fx_table q)) [0..<8])"
    by (simp only: wiring_def handlers_append handlers_concat map_map comp_def)
  also have "\<dots> = xs"
    by (simp only: assms(1) concat_map_single [OF assms(2,3)] append_Nil)
  finally show ?thesis .
qed

lemma handlers_track:
  assumes "p < 8"
  shows "handlers (track_address (Suc p) f) wiring = (if f = T_name then [] else [TrackListener p f])"
proof (rule handlers_wiring [OF tf_song_table assms])
  fix q :: nat
  assume "q < 8"
  then show "handlers (track_address (Suc p) f) (track_table (q + 1) q (8 * q) @ fx_table q) =
        (if q = p then (if f = T_name then [] else [TrackListener p f]) else [])"
    using assms
    by (simp add: track_table_def handlers_append handlers_concat tf_field_table tf_fx_table
        concat_map_none tf_send_table tf_clip_table comp_def)
qed

subsection \<open>Send addresses\<close>

lemma sn_field_table:
  "p < 8 \<Longrightarrow> q < 8 \<Longrightarrow> i < 6 \<Longrightarrow> handlers (send_address (Suc p) i what) (field_table (Suc q) q) = []"
  by (auto simp: field_table_def addr_defs handlers_Cons handlers_Nil show_nat_digit digit_inj)

lemma sn_send_table:
  "p < 8 \<Longrightarrow> q < 8 \<Longrightarrow> i < 6 \<Longrightarrow> j < 6 \<Longrightarrow>
   handlers (send_address (Suc p) i ''name'') (send_table (Suc q) q j) =
     (if j = i then (if q = p then [SendNameListener q j] else []) else [])"
  by (auto simp: send_table_def addr_defs handlers_Cons handlers_Nil show_nat_digit digit_inj)

lemma sv_send_table:
  "p < 8 \<Longrightarrow> q < 8 \<Longrightarrow> i < 6 \<Longrightarrow> j < 6 \<Longrightarrow>
   handlers (send_address (Suc p) i ''volume'') (send_table (Suc q) q j) =
     (if j = i then (if q = p then [SendVolumeListener q j] else []) else [])"
  by (auto simp: send_table_def addr_defs handlers_Cons handlers_Nil show_nat_digit digit_inj)

lemma sn_clip_table:
  "p < 8 \<Longrightarrow> q < 8 \<Longrightarrow> i < 6 \<Longrightarrow> j < 8 \<Longrightarrow>
   handlers (send_address (Suc p) i what) (clip_table (Suc q) j c) = []"
  by (auto simp: clip_table_def addr_defs handlers_Cons handlers_Nil show_nat_digit digit_inj)

lemma sn_fx_table: "handlers (send_address (Suc p) i what) (fx_table q) = []"
  by (auto simp: fx_table_def addr_defs handlers_Cons handlers_Nil)

lemma sn_song_table: "handlers (send_address (Suc p) i what) song_table = []"
  by (auto simp: song_table_def addr_defs handlers_Cons handlers_Nil)

lemma handlers_send_name:
  assumes "p < 8" and "i < 6"
  shows "handlers (send_address (Suc p) i ''name'') wiring = [SendNameListener p i]"
proof (rule handlers_wiring [OF sn_song_table assms(1)])
  fix q :: nat
  assume q: "q < 8"
  have "concat (map (\<lambda>j. handlers (send_address (Suc p) i ''name'') (send_table (Suc q) q j)) [0..<6]) =
        (if q = p then [SendNameListener q i] else [])"
    by (rule concat_map_single [OF assms(2)]) (use assms q in \<open>simp add: sn_send_table\<close>)
  then show "handlers (send_address (Suc p) i ''name'') (track_table (q + 1) q (8 * q) @ fx_table q) =
        (if q = p then [SendNameListener p i] else [])"
    using assms q
    by (simp add: track_table_def handlers_append handlers_concat sn_field_table sn_fx_table
        concat_map_none sn_clip_table comp_def)
qed

lemma handlers_send_volume:
  assumes "p < 8" and "i < 6"
  shows "handlers (send_address (Suc p) i ''volume'') wiring = [SendVolumeListener p i]"
proof (rule handlers_wiring [OF sn_song_table assms(1)])
  fix q :: nat
  assume q: "q < 8"
  have "concat (map (\<lambda>j. handlers (send_address (Suc p) i ''volume'') (send_table (Suc q) q j)) [0..<6]) =
        (if q = p then [SendVolumeListener q i] else [])"
    by (rule concat_map_single [OF assms(2)]) (use assms q in \<open>simp add: sv_send_table\<close>)
  then show "handlers (send_address (Suc p) i ''volume'') (track_table (q + 1) q (8 * q) @ fx_table q) =
        (if q = p then [SendVolumeListener p i] else [])"
    using assms q
    by (simp add: track_table_def handlers_append handlers_concat sn_field_table sn_fx_table
        concat_map_none sn_clip_table comp_def)
qed

subsection \<open>Clip addresses\<close>

lemma cl_field_table:
  "p < 8 \<Longrightarrow> q < 8 \<Longrightarrow> i < 8 \<Longrightarrow> handlers (clip_address (Suc p) i f) (field_table (Suc q) q) = []"
  by (cases f) (auto simp: field_table_def addr_defs handlers_Cons handlers_Nil show_nat_digit digit_inj)

lemma cl_send_table:
  "p < 8 \<Longrightarrow> q < 8 \<Longrightarrow> i < 8 \<Longrightarrow> j < 6 \<Longrightarrow>
   handlers (clip_address (Suc p) i f) (send_table (Suc q) q j) = []"
  by (cases f) (auto simp: send_table_def addr_defs handlers_Cons handlers_Nil show_nat_digit digit_inj)

lemma cl_clip_table:
  "p < 8 \<Longrightarrow> q < 8 \<Longrightarrow> i < 8 \<Longrightarrow> j < 8 \<Longrightarrow>
   handlers (clip_address (Suc p) i f) (clip_table (Suc q) j (c + j)) =
     (if j = i then (if q = p then [ClipListener (c + i) f] else []) else [])"
  by (cases f) (auto simp: clip_table_def addr_defs handlers_Cons handlers_Nil show_nat_digit digit_inj)

lemma cl_fx_table: "handlers (clip_address (Suc p) i f) (fx_table q) = []"
  by (auto simp: fx_table_def addr_defs handlers_Cons handlers_Nil)

lemma cl_song_table: "handlers (clip_address (Suc p) i f) song_table = []"
  by (auto simp: song_table_def addr_defs handlers_Cons handlers_Nil)

lemma handlers_clip:
  assumes "p < 8" and "i < 8"
  shows "handlers (clip_address (Suc p) i f) wiring = [ClipListener (8 * p + i) f]"
proof (rule handlers_wiring [OF cl_song_table assms(1)])
  fix q :: nat
  assume q: "q < 8"
  have "concat (map (\<lambda>j. handlers (clip_address (Suc p) i f) (clip_table (Suc q) j (8 * q + j))) [0..<8]) =
        (if q = p then [ClipListener (8 * q + i) f] else [])"
    by (rule concat_map_single [OF assms(2)]) (use assms q in \<open>simp add: cl_clip_table\<close>)
  then show "handlers (clip_address (Suc p) i f) (track_table (q + 1) q (8 * q) @ fx_table q) =
        (if q = p then [ClipListener (8 * p + i) f] else [])"
    using assms q
    by (simp add: track_table_def handlers_append handlers_concat cl_field_table cl_fx_table
        concat_map_none cl_send_table comp_def)
qed

subsection \<open>Device parameter addresses\<close>

lemma fx_track_table:
  "handlers (fxparam_address n what) (track_table tid q c) = []"
proof -
  have 1: "handlers (fxparam_address n what) (field_table tid q) = []"
    by (auto simp: field_table_def addr_defs handlers_Cons handlers_Nil)
  have 2: "handlers (fxparam_address n what) (send_table tid q j) = []" for j
    by (auto simp: send_table_def addr_defs handlers_Cons handlers_Nil)
  have 3: "handlers (fxparam_address n what) (clip_table tid j d) = []" for j d
    by (auto simp: clip_table_def addr_defs handlers_Cons handlers_Nil)
  show ?thesis
    by (simp add: track_table_def handlers_append handlers_concat 1 2 3 comp_def)
qed

lemma fx_song_table: "handlers (fxparam_address n what) song_table = []"
  by (auto simp: song_table_def addr_defs handlers_Cons handlers_Nil)

lemma handlers_fx_name:
  assumes "i < 8"
  shows "handlers (fxparam_address (Suc i) ''name'') wiring = [FxNameListener i]"
proof (rule handlers_wiring [OF fx_song_table assms])
  fix q :: nat
  assume "q < 8"
  then have "handlers (fxparam_address (Suc i) ''name'') (fx_table q) = (if q = i then [FxNameListener i] else [])"
    using assms
    by (auto simp: fx_table_def addr_defs handlers_Cons handlers_Nil show_nat_digit digit_inj)
  then show "handlers (fxparam_address (Suc i) ''name'') (track_table (q + 1) q (8 * q) @ fx_table q) =
        (if q = i then [FxNameListener i] else [])"
    by (simp only: handlers_append fx_track_table append_Nil)
qed

lemma handlers_fx_value:
  assumes "i < 8"
  shows "handlers (fxparam_address (Suc i) ''value'') wiring = [FxValueListener i]"
proof (rule handlers_wiring [OF fx_song_table assms])
  fix q :: nat
  assume "q < 8"
  then have "handlers (fxparam_address (Suc i) ''value'') (fx_table q) = (if q = i then [FxValueListener i] else [])"
    using assms
    by (auto simp: fx_table_def addr_defs handlers_Cons handlers_Nil show_nat_digit digit_inj)
  then show "handlers (fxparam_address (Suc i) ''value'') (track_table (q + 1) q (8 * q) @ fx_table q) =
        (if q = i then [FxValueListener i] else [])"
    by (simp only: handlers_append fx_track_table append_Nil)
qed

subsection \<open>Song addresses\<close>

lemma so_song_table: "handlers (song_address f) song_table = [SongListener f]"
  by (cases f) (simp_all add: song_table_def handlers_Cons handlers_Nil)

lemma so_track_table: "handlers (song_address f) (track_table tid q c) = []"
proof -
  have 1: "handlers (song_address f) (field_table tid q) = []"
    by (cases f) (simp_all add: field_table_def addr_defs handlers_Cons handlers_Nil)
  have 2: "handlers (song_address f) (send_table tid q j) = []" for j
    by (cases f) (simp_all add: send_table_def addr_defs handlers_Cons handlers_Nil)
  have 3: "handlers (song_address f) (clip_table tid j d) = []" for j d
    by (cases f) (simp_all add: clip_table_def addr_defs handlers_Cons handlers_Nil)
  show ?thesis
    by (simp add: track_table_def handlers_append handlers_concat 1 2 3 comp_def)
qed

lemma so_fx_table: "handlers (song_address f) (fx_table q) = []"
  by (cases f) (simp_all add: fx_table_def addr_defs handlers_Cons handlers_Nil)

lemma handlers_song: "handlers (song_address f) wiring = [SongListener f]"
  by (simp add: wiring_def handlers_append handlers_concat so_song_table so_track_table so_fx_table comp_def)

section \<open>What stays fixed\<close>

lemma nth_blocks:
  "p < n \<Longrightarrow> i < 8 \<Longrightarrow> concat (map (\<lambda>q. map (g q) [0..<8]) [0..<n]) ! (8 * p + i) = g p i"
proof (induction n)
  case 0
  then show ?case by simp
next
  case (Suc n)
  have len: "length (concat (map (\<lambda>q. map (g q) [0..<8]) [0..<n])) = 8 * n"
    by (induction n) simp_all
  show ?case
  proof (cases "p = n")
    case True
    then show ?thesis using Suc.prems len by (simp add: nth_append)
  next
    case False
    then have "p < n" using Suc.prems by simp
    then have "8 * p + i < 8 * n" using Suc.prems by simp
    then show ?thesis using Suc.IH \<open>p < n\<close> Suc.prems len by (simp add: nth_append)
  qed
qed

lemma length_blocks: "length (concat (map (\<lambda>q. map (g q) [0..<8]) [0..<n])) = 8 * n"
  by (induction n) simp_all

lemma nth_blocks_id:
  "p < n \<Longrightarrow> i < 8 \<Longrightarrow> concat (map (\<lambda>q. [0..<8]) [0..<n]) ! (8 * p + i) = i"
  using nth_blocks [where g = "\<lambda>q i. i"] by simp

lemma length_blocks_id: "length (concat (map (\<lambda>q. [0..<8]) [0..<n])) = 8 * n"
  using length_blocks [where g = "\<lambda>q i. i"] by simp

lemma frame_new:
  "frame OSC4Bitwig_new =
     (wiring, map Suc [0..<8], map (\<lambda>p. map (\<lambda>i. 8 * p + i) [0..<8]) [0..<8], replicate 8 6, 8,
      concat (map (\<lambda>p. [0..<8]) [0..<8]),
      concat (map (\<lambda>p. map (\<lambda>i. p) [0..<8]) [0..<8]))"
  by (simp add: frame_def OSC4Bitwig_new_eq Track_built_def Track_init_def Clip_init_def
      map_concat comp_def map_replicate_const)

lemma wired_new: "wired OSC4Bitwig_new"
  by (simp add: wired_def)

lemma wired_receiver: "wired w \<Longrightarrow> receiver w = wiring"
  by (simp add: wired_def frame_new) (simp add: frame_def)

lemma wired_tracks: "wired w \<Longrightarrow> length (tracks (song w)) = 8"
proof -
  assume "wired w"
  then have "map t_id (tracks (song w)) = map Suc [0..<8]"
    by (simp add: wired_def frame_new) (simp add: frame_def)
  then have "length (map t_id (tracks (song w))) = length (map Suc [0..<8])" by simp
  then show ?thesis by simp
qed

lemma wired_t_id: "wired w \<Longrightarrow> p < 8 \<Longrightarrow> t_id (tracks (song w) ! p) = Suc p"
proof -
  assume w: "wired w" and p: "p < 8"
  then have "map t_id (tracks (song w)) = map Suc [0..<8]"
    by (simp add: wired_def frame_new) (simp add: frame_def)
  then have "map t_id (tracks (song w)) ! p = map Suc [0..<8] ! p" by simp
  then show ?thesis using p wired_tracks [OF w] by simp
qed

lemma wired_t_clips:
  "wired w \<Longrightarrow> p < 8 \<Longrightarrow> t_clips (tracks (song w) ! p) = map (\<lambda>i. 8 * p + i) [0..<8]"
proof -
  assume w: "wired w" and p: "p < 8"
  then have "map t_clips (tracks (song w)) = map (\<lambda>p. map (\<lambda>i. 8 * p + i) [0..<8]) [0..<8]"
    by (simp add: wired_def frame_new) (simp add: frame_def)
  then have "map t_clips (tracks (song w)) ! p = map (\<lambda>p. map (\<lambda>i. 8 * p + i) [0..<8]) [0..<8] ! p"
    by simp
  then show ?thesis using p wired_tracks [OF w] by simp
qed

lemma wired_t_sends: "wired w \<Longrightarrow> p < 8 \<Longrightarrow> length (t_sends (tracks (song w) ! p)) = 6"
proof -
  assume w: "wired w" and p: "p < 8"
  then have "map (\<lambda>t. length (t_sends t)) (tracks (song w)) = replicate 8 6"
    by (simp add: wired_def frame_new) (simp add: frame_def)
  then have "map (\<lambda>t. length (t_sends t)) (tracks (song w)) ! p = replicate 8 6 ! p"
    by simp
  then show ?thesis using p wired_tracks [OF w] by simp
qed

lemma wired_fxparams: "wired w \<Longrightarrow> length (fxparams (song w)) = 8"
  by (simp add: wired_def frame_new) (simp add: frame_def)

lemma wired_store: "wired w \<Longrightarrow> length (store w) = 64"
proof -
  assume "wired w"
  then have "map c_id (store w) = concat (map (\<lambda>p. [0..<8]) [0..<8])"
    by (simp add: wired_def frame_new) (simp add: frame_def)
  then have "length (map c_id (store w)) = length (concat (map (\<lambda>p. [0..<8]) [0..<8]))"
    by simp
  then show ?thesis by (simp add: length_blocks_id)
qed

lemma wired_c_id: "wired w \<Longrightarrow> p < 8 \<Longrightarrow> i < 8 \<Longrightarrow> c_id (store w ! (8 * p + i)) = i"
proof -
  assume w: "wired w" and p: "p < 8" and i: "i < 8"
  then have "map c_id (store w) = concat (map (\<lambda>p. [0..<8]) [0..<8])"
    by (simp add: wired_def frame_new) (simp add: frame_def)
  then have "map c_id (store w) ! (8 * p + i) = concat (map (\<lambda>p. [0..<8]) [0..<8]) ! (8 * p + i)"
    by simp
  moreover have "8 * p + i < length (store w)" using p i wired_store [OF w] by simp
  ultimately show ?thesis using p i by (simp add: nth_blocks_id)
qed

lemma wired_c_track: "wired w \<Longrightarrow> p < 8 \<Longrightarrow> i < 8 \<Longrightarrow> c_track (store w ! (8 * p + i)) = p"
proof -
  assume w: "wired w" and p: "p < 8" and i: "i < 8"
  then have "map c_track (store w) = concat (map (\<lambda>p. map (\<lambda>i. p) [0..<8]) [0..<8])"
    by (simp add: wired_def frame_new) (simp add: frame_def)
  then have "map c_track (store w) ! (8 * p + i) = concat (map (\<lambda>p. map (\<lambda>i. p) [0..<8]) [0..<8]) ! (8 * p + i)"
    by simp
  moreover have "8 * p + i < length (store w)" using p i wired_store [OF w] by simp
  ultimately show ?thesis using p i by (simp add: nth_blocks)
qed

section \<open>Every operation keeps the frame\<close>

lemma map_update_same:
  "h (g (xs ! q)) = h (xs ! q) \<Longrightarrow> map h (xs[q := g (xs ! q)]) = map h xs"
proof (cases "q < length xs")
  case True
  assume "h (g (xs ! q)) = h (xs ! q)"
  then show ?thesis using True by (simp add: map_update list_update_same_conv)
next
  case False
  then have "xs[q := g (xs ! q)] = xs" by (simp add: list_update_beyond)
  then show ?thesis by simp
qed

lemma frame_emit [simp]: "frame (emit e n ps w) = frame w"
  by (simp add: frame_def emit_def)

lemma frame_osc_emit [simp]: "frame (osc_emit a args w) = frame w"
  by (simp add: frame_def osc_emit_def)

lemma frame_song_listener [simp]: "frame (song_listener f v w) = frame w"
  by (cases f) (simp_all add: frame_def song_listener_def emit_def Let_def)

lemma frame_Track_emitEvent [simp]: "frame (Track_emitEvent p n ps w) = frame w"
  by (simp add: Track_emitEvent_def Let_def)

lemma frame_Clip_emitEvent [simp]: "frame (Clip_emitEvent c n ps w) = frame w"
  by (simp add: Clip_emitEvent_def Let_def)

lemma frame_upd_track:
  "(\<And>t. t_id (g t) = t_id t \<and> t_clips (g t) = t_clips t \<and> length (t_sends (g t)) = length (t_sends t))
   \<Longrightarrow> frame (upd_track p g w) = frame w"
  by (simp add: frame_def upd_track_def map_update_same)

lemma frame_track_listener [simp]: "frame (track_listener p f v w) = frame w"
  by (cases f) (simp_all add: track_listener_def Let_def frame_upd_track)

lemma frame_clip_listener [simp]: "frame (clip_listener c f v w) = frame w"
  by (cases f) (simp_all add: clip_listener_def Let_def frame_def map_update_same
      Clip_emitEvent_def emit_def)

lemma frame_sendNameListener [simp]: "frame (state_after (sendNameListener p i v w)) = frame w"
  by (simp add: sendNameListener_def Let_def frame_upd_track)

lemma frame_sendVolumeListener [simp]: "frame (state_after (sendVolumeListener p i v w)) = frame w"
  by (simp add: sendVolumeListener_def Let_def frame_upd_track)

lemma frame_fxNameListener [simp]: "frame (state_after (fxNameListener i v w)) = frame w"
  by (simp add: fxNameListener_def frame_def)

lemma frame_fxValueListener [simp]: "frame (state_after (fxValueListener i v w)) = frame w"
  by (simp add: fxValueListener_def frame_def)

lemma frame_run_listener [simp]: "frame (state_after (run_listener l args w)) = frame w"
  by (cases l) simp_all

lemma frame_run_all [simp]: "frame (state_after (run_all ls args w)) = frame w"
proof (induction ls arbitrary: w)
  case Nil
  show ?case by simp
next
  case (Cons l ls)
  show ?case
  proof (cases "run_listener l args w")
    case (Inl e)
    then have "frame (state_after (Inl e)) = frame w"
      using frame_run_listener [of l args w] by simp
    then show ?thesis using Inl by simp
  next
    case (Inr w')
    then have "frame w' = frame w"
      using frame_run_listener [of l args w] by simp
    then show ?thesis using Inr Cons.IH [of w'] by simp
  qed
qed

lemma frame_deliver [simp]: "frame (state_after (deliver a args w)) = frame w"
  by (simp add: deliver_def)

lemma frame_invoke [simp]: "frame (invoke c w) = frame w"
  by (cases c)
     (simp_all add: Song_stop_def Song_play_def Song_record_def Song_loop_def Song_setClick_def
        Song_launchScene_def Song_setVolume_def Song_setPan_def Song_setTempo_def Song_setTime_def
        Song_toggleFxBypass_def Song_select_def Track_setName_def Track_setRecarm_def
        Track_setSolo_def Track_setMute_def Track_setVolume_def Track_setPan_def
        Track_setSendName_def Track_view_def Clip_launch_def)

lemma wired_refreshClips:
  "wired w \<Longrightarrow> p < length (tracks (song w)) \<Longrightarrow> Track_refreshClips p w = Inl (TypeError, w)"
  using wired_t_clips [of w p] wired_tracks [of w]
  by (simp add: Track_refreshClips_def)

lemma wired_step: "wired w \<Longrightarrow> wired (state_after (step a w))"
proof (cases a)
  case (Inbound address args)
  assume "wired w"
  then show ?thesis using Inbound by (simp add: wired_def)
next
  case (Call c)
  assume "wired w"
  then show ?thesis using Call by (simp add: wired_def)
next
  case (SetNumScenes p n)
  assume "wired w"
  then show ?thesis using SetNumScenes
    by (simp add: wired_def Track_setNumScenes_def frame_upd_track)
next
  case (RefreshClips p)
  assume "wired w"
  then show ?thesis using RefreshClips wired_refreshClips [of w p] by simp
qed

lemma wired_run: "wired w \<Longrightarrow> wired (run acts w)"
  unfolding run_def by (induction acts arbitrary: w) (simp_all add: wired_step)

lemma wired_reachable: "wired (run acts OSC4Bitwig_new)"
  by (rule wired_run [OF wired_new])

section \<open>What a delivered message does\<close>

lemma run_all_single: "run_all [l] args w = run_listener l args w"
  by (cases "run_listener l args w") simp_all

lemma deliver_song:
  "wired w \<Longrightarrow> deliver (song_address f) args w = Inr (song_listener f (arg0 args) w)"
  by (simp add: deliver_def wired_receiver handlers_song)

lemma deliver_track:
  "wired w \<Longrightarrow> p < 8 \<Longrightarrow> f \<noteq> T_name \<Longrightarrow>
   deliver (track_address (Suc p) f) args w = Inr (track_listener p f (arg0 args) w)"
  by (simp add: deliver_def wired_receiver handlers_track wired_tracks)

lemma deliver_track_name:
  "wired w \<Longrightarrow> p < 8 \<Longrightarrow> deliver (track_address (Suc p) T_name) args w = Inr w"
  by (simp add: deliver_def wired_receiver handlers_track)

lemma deliver_clip:
  "wired w \<Longrightarrow> p < 8 \<Longrightarrow> i < 8 \<Longrightarrow>
   deliver (clip_address (Suc p) i f) args w = Inr (clip_listener (8 * p + i) f (arg0 args) w)"
  by (simp add: deliver_def wired_receiver handlers_clip wired_tracks wired_store wired_c_track)

lemma deliver_send_name:
  "wired w \<Longrightarrow> p < 8 \<Longrightarrow> i < 6 \<Longrightarrow>
   deliver (send_address (Suc p) i ''name'') args w = sendNameListener p i (arg0 args) w"
  by (simp add: deliver_def wired_receiver handlers_send_name wired_tracks run_all_single del: run_all.simps)

lemma deliver_send_volume:
  "wired w \<Longrightarrow> p < 8 \<Longrightarrow> i < 6 \<Longrightarrow>
   deliver (send_address (Suc p) i ''volume'') args w = sendVolumeListener p i (arg0 args) w"
  by (simp add: deliver_def wired_receiver handlers_send_volume wired_tracks run_all_single del: run_all.simps)

lemma deliver_fx_name:
  "wired w \<Longrightarrow> i < 8 \<Longrightarrow>
   deliver (fxparam_address (Suc i) ''name'') args w = fxNameListener i (arg0 args) w"
  by (simp add: deliver_def wired_receiver handlers_fx_name run_all_single del: run_all.simps)

lemma deliver_fx_value:
  "wired w \<Longrightarrow> i < 8 \<Longrightarrow>
   deliver (fxparam_address (Suc i) ''value'') args w = fxValueListener i (arg0 args) w"
  by (simp add: deliver_def wired_receiver handlers_fx_value run_all_single del: run_all.simps)

lemma extend_id [simp]:
  "underscore_extend [(''id'', x)] [(''value'', v), (''prev'', u)] =
     [(''id'', x), (''value'', v), (''prev'', u)]"
  by (simp add: underscore_extend_def)

lemma extend_id_num [simp]:
  "underscore_extend [(''id'', x)] [(''num'', n), (''value'', v), (''prev'', u)] =
     [(''id'', x), (''num'', n), (''value'', v), (''prev'', u)]"
  by (simp add: underscore_extend_def)

lemma extend_id_trackId [simp]:
  "underscore_extend [(''id'', x), (''trackId'', y)] [(''value'', v), (''prev'', u)] =
     [(''id'', x), (''trackId'', y), (''value'', v), (''prev'', u)]"
  by (simp add: underscore_extend_def)

lemma song_listener_eq:
  "song_listener f v w =
     w\<lparr>emitted := emitted w @
          [\<lparr>source = SongEvents, ev = song_event f,
            params = [(''value'', v), (''prev'', song_get f (song w))],
            seen = (song w, store w)\<rparr>],
       song := song_put f v (song w)\<rparr>"
  by (simp add: song_listener_def emit_def Let_def)

lemma track_listener_eq:
  "track_listener p f v w =
     w\<lparr>emitted := emitted w @
          [\<lparr>source = TrackEvents p, ev = track_field_name f,
            params = [(''value'', v), (''prev'', track_get f (tracks (song w) ! p))],
            seen = (song w, store w)\<rparr>,
           \<lparr>source = SongEvents, ev = ''track:'' @ track_field_name f,
            params = [(''id'', JNum (of_nat (t_id (tracks (song w) ! p)))), (''value'', v),
                      (''prev'', track_get f (tracks (song w) ! p))],
            seen = (song w, store w)\<rparr>],
       song := (song w)\<lparr>tracks := (tracks (song w))[p := track_put f v (tracks (song w) ! p)]\<rparr>\<rparr>"
  by (simp add: track_listener_def Track_emitEvent_def emit_def upd_track_def Let_def)

lemma clip_listener_eq:
  "clip_listener c f v w =
     w\<lparr>emitted := emitted w @
          [\<lparr>source = ClipEvents c, ev = clip_field_name f,
            params = [(''value'', v), (''prev'', clip_get f (store w ! c))],
            seen = (song w, store w)\<rparr>,
           \<lparr>source = SongEvents, ev = ''clip:'' @ clip_field_name f,
            params = [(''id'', JNum (of_nat (c_id (store w ! c)))),
                      (''trackId'', JNum (of_nat (t_id (tracks (song w) ! c_track (store w ! c))))),
                      (''value'', v), (''prev'', clip_get f (store w ! c))],
            seen = (song w, store w)\<rparr>],
       store := (store w)[c := clip_put f v (store w ! c)]\<rparr>"
  by (simp add: clip_listener_def Clip_emitEvent_def emit_def Let_def)

lemma sendNameListener_eq:
  "i < length (t_sends (tracks (song w) ! p)) \<Longrightarrow>
   sendNameListener p i v w =
     Inr (w\<lparr>emitted := emitted w @
          [\<lparr>source = TrackEvents p, ev = ''sendName'',
            params = [(''num'', JNum (of_nat i)), (''value'', v), (''prev'', t_name (tracks (song w) ! p))],
            seen = (song w, store w)\<rparr>,
           \<lparr>source = SongEvents, ev = ''track:sendName'',
            params = [(''id'', JNum (of_nat (t_id (tracks (song w) ! p)))),
                      (''num'', JNum (of_nat i)), (''value'', v),
                      (''prev'', t_name (tracks (song w) ! p))],
            seen = (song w, store w)\<rparr>],
       song := (song w)\<lparr>tracks := (tracks (song w))[p := (tracks (song w) ! p)
          \<lparr>t_sends := (t_sends (tracks (song w) ! p))
             [i := (t_sends (tracks (song w) ! p) ! i)\<lparr>send_name := v\<rparr>]\<rparr>]\<rparr>\<rparr>)"
  by (simp add: sendNameListener_def Track_emitEvent_def emit_def upd_track_def Let_def)

lemma sendVolumeListener_eq:
  "i < length (t_sends (tracks (song w) ! p)) \<Longrightarrow>
   sendVolumeListener p i v w =
     Inr (w\<lparr>emitted := emitted w @
          [\<lparr>source = TrackEvents p, ev = ''sendVolume'',
            params = [(''num'', JNum (of_nat i)), (''value'', v), (''prev'', t_volume (tracks (song w) ! p))],
            seen = (song w, store w)\<rparr>,
           \<lparr>source = SongEvents, ev = ''track:sendVolume'',
            params = [(''id'', JNum (of_nat (t_id (tracks (song w) ! p)))),
                      (''num'', JNum (of_nat i)), (''value'', v),
                      (''prev'', t_volume (tracks (song w) ! p))],
            seen = (song w, store w)\<rparr>],
       song := (song w)\<lparr>tracks := (tracks (song w))[p := (tracks (song w) ! p)
          \<lparr>t_sends := (t_sends (tracks (song w) ! p))
             [i := (t_sends (tracks (song w) ! p) ! i)\<lparr>send_volume := v\<rparr>]\<rparr>]\<rparr>\<rparr>)"
  by (simp add: sendVolumeListener_def Track_emitEvent_def emit_def upd_track_def Let_def)

lemma song_get_put [simp]: "song_get f (song_put f v s) = v"
  by (cases f) simp_all

lemma track_get_put [simp]: "track_get f (track_put f v t) = v"
  by (cases f) simp_all

lemma clip_get_put [simp]: "clip_get f (clip_put f v c) = v"
  by (cases f) simp_all

section \<open>Outbound commands\<close>

lemmas method_defs =
  Song_stop_def Song_play_def Song_record_def Song_loop_def Song_setClick_def
  Song_launchScene_def Song_setVolume_def Song_setPan_def Song_setTempo_def Song_setTime_def
  Song_toggleFxBypass_def Song_select_def Track_setName_def Track_setRecarm_def
  Track_setSolo_def Track_setMute_def Track_setVolume_def Track_setPan_def
  Track_setSendName_def Track_view_def Clip_launch_def

lemma instance_new [simp]:
  "emitted OSC4Bitwig_new = []" "sent OSC4Bitwig_new = []"
  by (simp_all add: OSC4Bitwig_new_eq)

lemma show_nat_values:
  "show_nat 0 = ''0''" "show_nat 1 = ''1''" "show_nat 2 = ''2''" "show_nat 3 = ''3''"
  "show_nat 4 = ''4''" "show_nat 5 = ''5''" "show_nat 6 = ''6''" "show_nat 7 = ''7''"
  "show_nat 8 = ''8''" "show_nat 9 = ''9''" "show_nat (Suc 0) = ''1''"
  by (simp_all add: show_nat.simps digit_def)

text \<open>
  C4. Setting the volume to 64 on the track with id 3 hands the emitter exactly one
  message, \<^verbatim>\<open>/track/3/volume\<close> with the single argument 64 typed integer. Launching the
  clip with id 0 of the track with id 2 hands it exactly one message,
  \<^verbatim>\<open>/track/2/clip/1/launch\<close>, with no argument: the clip id is shifted by one.
\<close>

theorem outbound_serialization:
  "(t_id (tracks (song w) ! p) = 3 \<longrightarrow>
      sent (Track_setVolume p (JNum 64) w) =
        sent w @ [(''/track/3/volume'', [Typed OInteger (JNum 64)])]) \<and>
   (c_id (store w ! c) = 0 \<and> t_id (tracks (song w) ! c_track (store w ! c)) = 2 \<longrightarrow>
      sent (Clip_launch c w) = sent w @ [(''/track/2/clip/1/launch'', [])])"
  by (simp add: Track_setVolume_def Clip_launch_def osc_emit_def show_nat_values)

theorem outbound_serialization_witness:
  "t_id (tracks (song OSC4Bitwig_new) ! 2) = 3 \<and>
   sent (Track_setVolume 2 (JNum 64) OSC4Bitwig_new) =
     [(''/track/3/volume'', [Typed OInteger (JNum 64)])] \<and>
   c_id (store OSC4Bitwig_new ! 8) = 0 \<and>
   t_id (tracks (song OSC4Bitwig_new) ! c_track (store OSC4Bitwig_new ! 8)) = 2 \<and>
   sent (Clip_launch 8 OSC4Bitwig_new) = [(''/track/2/clip/1/launch'', [])]"
proof -
  have t: "t_id (tracks (song OSC4Bitwig_new) ! 2) = 3"
    using wired_t_id [OF wired_new, of 2] by simp
  have c: "c_id (store OSC4Bitwig_new ! 8) = 0"
    using wired_c_id [OF wired_new, of 1 0] by simp
  have ct: "c_track (store OSC4Bitwig_new ! 8) = 1"
    using wired_c_track [OF wired_new, of 1 0] by simp
  have t2: "t_id (tracks (song OSC4Bitwig_new) ! c_track (store OSC4Bitwig_new ! 8)) = 2"
    using wired_t_id [OF wired_new, of 1] ct by simp
  show ?thesis
    using outbound_serialization [of OSC4Bitwig_new 2 8] t c t2 by simp
qed

text \<open>
  C7. An outbound command changes nothing of the mirrored state, of the registered
  listeners or of the emitted events: all it does is hand one message to the emitter.
\<close>

theorem outbound_leaves_mirror:
  "song (invoke c w) = song w \<and> store (invoke c w) = store w \<and>
   receiver (invoke c w) = receiver w \<and> emitted (invoke c w) = emitted w \<and>
   (\<exists>m. sent (invoke c w) = sent w @ [m])"
  by (cases c) (simp_all add: method_defs osc_emit_def)

section \<open>Change events\<close>

lemma wired_deliver: "wired w \<Longrightarrow> wired (state_after (deliver a args w))"
  by (simp add: wired_def)

lemma returns_Inr [simp]: "returns (Inr w)"
  by (simp add: returns_def)

lemma new_emissions_app [simp]: "new_emissions w (w'\<lparr>emitted := emitted w @ es\<rparr>) = es"
  by (simp add: new_emissions_def)

lemma new_emissions_app_song [simp]:
  "new_emissions w (w\<lparr>emitted := emitted w @ es, song := s\<rparr>) = es"
  by (simp add: new_emissions_def)

lemma new_emissions_app_store [simp]:
  "new_emissions w (w\<lparr>emitted := emitted w @ es, store := s\<rparr>) = es"
  by (simp add: new_emissions_def)

lemma events_since_two:
  "emitted w1 = emitted w @ es1 \<Longrightarrow> emitted w2 = emitted w1 @ es2 \<Longrightarrow>
   events_since w w2 = events_since w w1 @ events_since w1 w2"
  by (simp add: events_since_def new_emissions_def)

lemma get_prop_simps [simp]:
  "get_prop ''value'' ((''value'', v) # ps) = v"
  "get_prop ''prev'' [(''value'', v), (''prev'', u)] = u"
  "get_prop ''value'' ((''id'', x) # ps) = get_prop ''value'' ps"
  "get_prop ''prev'' ((''id'', x) # ps) = get_prop ''prev'' ps"
  "get_prop ''value'' ((''trackId'', x) # ps) = get_prop ''value'' ps"
  "get_prop ''prev'' ((''trackId'', x) # ps) = get_prop ''prev'' ps"
  by (simp_all add: get_prop_def)

lemma id_put [simp]:
  "t_id (track_put tf v t) = t_id t" "c_id (clip_put cf v c) = c_id c"
  "c_track (clip_put cf v c) = c_track c"
  by (cases tf; simp) (cases cf; simp)+

lemma song_message:
  assumes "wired w"
  shows "deliver (song_address f) args w = Inr (song_listener f (arg0 args) w)"
    and "events_since w (song_listener f (arg0 args) w) =
           [(SongEvents, song_event f, [(''value'', arg0 args), (''prev'', song_get f (song w))])]"
    and "song (song_listener f (arg0 args) w) = song_put f (arg0 args) (song w)"
    and "store (song_listener f (arg0 args) w) = store w"
    and "wired (song_listener f (arg0 args) w)"
    and "emitted (song_listener f (arg0 args) w) =
           emitted w @ new_emissions w (song_listener f (arg0 args) w)"
proof -
  show d: "deliver (song_address f) args w = Inr (song_listener f (arg0 args) w)"
    by (rule deliver_song [OF assms])
  show "wired (song_listener f (arg0 args) w)"
    using wired_deliver [OF assms, of "song_address f" args] d by simp
qed (simp_all add: song_listener_eq events_since_def)

lemma track_message:
  assumes "wired w" and "p < 8" and "f \<noteq> T_name"
  shows "deliver (track_address (Suc p) f) args w = Inr (track_listener p f (arg0 args) w)"
    and "events_since w (track_listener p f (arg0 args) w) =
           [(TrackEvents p, track_field_name f,
             [(''value'', arg0 args), (''prev'', track_get f (tracks (song w) ! p))]),
            (SongEvents, ''track:'' @ track_field_name f,
             [(''id'', JNum (of_nat (Suc p))), (''value'', arg0 args),
              (''prev'', track_get f (tracks (song w) ! p))])]"
    and "song (track_listener p f (arg0 args) w) =
           (song w)\<lparr>tracks := (tracks (song w))[p := track_put f (arg0 args) (tracks (song w) ! p)]\<rparr>"
    and "store (track_listener p f (arg0 args) w) = store w"
    and "wired (track_listener p f (arg0 args) w)"
    and "emitted (track_listener p f (arg0 args) w) =
           emitted w @ new_emissions w (track_listener p f (arg0 args) w)"
    and "track_get f (tracks (song (track_listener p f (arg0 args) w)) ! p) = arg0 args"
proof -
  show d: "deliver (track_address (Suc p) f) args w = Inr (track_listener p f (arg0 args) w)"
    by (rule deliver_track [OF assms])
  show "wired (track_listener p f (arg0 args) w)"
    using wired_deliver [OF assms(1), of "track_address (Suc p) f" args] d by simp
  show "events_since w (track_listener p f (arg0 args) w) =
           [(TrackEvents p, track_field_name f,
             [(''value'', arg0 args), (''prev'', track_get f (tracks (song w) ! p))]),
            (SongEvents, ''track:'' @ track_field_name f,
             [(''id'', JNum (of_nat (Suc p))), (''value'', arg0 args),
              (''prev'', track_get f (tracks (song w) ! p))])]"
    using wired_t_id [OF assms(1,2)] by (simp add: track_listener_eq events_since_def)
  show "track_get f (tracks (song (track_listener p f (arg0 args) w)) ! p) = arg0 args"
    using wired_tracks [OF assms(1)] assms(2) by (simp add: track_listener_eq)
qed (simp_all add: track_listener_eq)

lemma clip_message:
  assumes "wired w" and "p < 8" and "i < 8"
  shows "deliver (clip_address (Suc p) i f) args w = Inr (clip_listener (8 * p + i) f (arg0 args) w)"
    and "events_since w (clip_listener (8 * p + i) f (arg0 args) w) =
           [(ClipEvents (8 * p + i), clip_field_name f,
             [(''value'', arg0 args), (''prev'', clip_get f (store w ! (8 * p + i)))]),
            (SongEvents, ''clip:'' @ clip_field_name f,
             [(''id'', JNum (of_nat i)), (''trackId'', JNum (of_nat (Suc p))),
              (''value'', arg0 args), (''prev'', clip_get f (store w ! (8 * p + i)))])]"
    and "store (clip_listener (8 * p + i) f (arg0 args) w) =
           (store w)[8 * p + i := clip_put f (arg0 args) (store w ! (8 * p + i))]"
    and "song (clip_listener (8 * p + i) f (arg0 args) w) = song w"
    and "wired (clip_listener (8 * p + i) f (arg0 args) w)"
    and "t_clips (tracks (song w) ! p) ! i = 8 * p + i"
    and "emitted (clip_listener (8 * p + i) f (arg0 args) w) =
           emitted w @ new_emissions w (clip_listener (8 * p + i) f (arg0 args) w)"
    and "clip_get f (store (clip_listener (8 * p + i) f (arg0 args) w) ! (8 * p + i)) = arg0 args"
proof -
  show d: "deliver (clip_address (Suc p) i f) args w = Inr (clip_listener (8 * p + i) f (arg0 args) w)"
    by (rule deliver_clip [OF assms])
  show "wired (clip_listener (8 * p + i) f (arg0 args) w)"
    using wired_deliver [OF assms(1), of "clip_address (Suc p) i f" args] d by simp
  show "events_since w (clip_listener (8 * p + i) f (arg0 args) w) =
           [(ClipEvents (8 * p + i), clip_field_name f,
             [(''value'', arg0 args), (''prev'', clip_get f (store w ! (8 * p + i)))]),
            (SongEvents, ''clip:'' @ clip_field_name f,
             [(''id'', JNum (of_nat i)), (''trackId'', JNum (of_nat (Suc p))),
              (''value'', arg0 args), (''prev'', clip_get f (store w ! (8 * p + i)))])]"
    using wired_t_id [OF assms(1,2)] wired_c_id [OF assms] wired_c_track [OF assms]
    by (simp add: clip_listener_eq events_since_def)
  show "t_clips (tracks (song w) ! p) ! i = 8 * p + i"
    using wired_t_clips [OF assms(1,2)] assms(3) by simp
  show "clip_get f (store (clip_listener (8 * p + i) f (arg0 args) w) ! (8 * p + i)) = arg0 args"
    using wired_store [OF assms(1)] assms(2,3) by (simp add: clip_listener_eq)
qed (simp_all add: clip_listener_eq)

lemma registered_track:
  "wired w \<Longrightarrow> p < 8 \<Longrightarrow> registered (track_address (Suc p) f) w = (f \<noteq> T_name)"
  by (simp add: registered_def wired_receiver handlers_track)

lemma send_name_message:
  assumes "wired w" and "p < 8" and "i < 6"
  shows "returns (deliver (send_address (Suc p) i ''name'') args w)"
    and "events_since w (state_after (deliver (send_address (Suc p) i ''name'') args w)) =
           [(TrackEvents p, ''sendName'',
             [(''num'', JNum (of_nat i)), (''value'', arg0 args),
              (''prev'', t_name (tracks (song w) ! p))]),
            (SongEvents, ''track:sendName'',
             [(''id'', JNum (of_nat (Suc p))), (''num'', JNum (of_nat i)),
              (''value'', arg0 args), (''prev'', t_name (tracks (song w) ! p))])]"
    and "t_sends (tracks (song (state_after (deliver (send_address (Suc p) i ''name'') args w))) ! p) =
           (t_sends (tracks (song w) ! p))
             [i := (t_sends (tracks (song w) ! p) ! i)\<lparr>send_name := arg0 args\<rparr>]"
  using wired_t_sends [OF assms(1,2)] wired_t_id [OF assms(1,2)] wired_tracks [OF assms(1)] assms(2,3)
  by (simp_all add: deliver_send_name [OF assms] sendNameListener_eq events_since_def)

lemma send_volume_message:
  assumes "wired w" and "p < 8" and "i < 6"
  shows "returns (deliver (send_address (Suc p) i ''volume'') args w)"
    and "events_since w (state_after (deliver (send_address (Suc p) i ''volume'') args w)) =
           [(TrackEvents p, ''sendVolume'',
             [(''num'', JNum (of_nat i)), (''value'', arg0 args),
              (''prev'', t_volume (tracks (song w) ! p))]),
            (SongEvents, ''track:sendVolume'',
             [(''id'', JNum (of_nat (Suc p))), (''num'', JNum (of_nat i)),
              (''value'', arg0 args), (''prev'', t_volume (tracks (song w) ! p))])]"
    and "t_sends (tracks (song (state_after (deliver (send_address (Suc p) i ''volume'') args w))) ! p) =
           (t_sends (tracks (song w) ! p))
             [i := (t_sends (tracks (song w) ! p) ! i)\<lparr>send_volume := arg0 args\<rparr>]"
  using wired_t_sends [OF assms(1,2)] wired_t_id [OF assms(1,2)] wired_tracks [OF assms(1)] assms(2,3)
  by (simp_all add: deliver_send_volume [OF assms] sendVolumeListener_eq events_since_def)

lemma fx_message:
  assumes "wired w" and "k < 8"
  shows "returns (deliver (fxparam_address (Suc k) ''name'') args w)"
    and "events_since w (state_after (deliver (fxparam_address (Suc k) ''name'') args w)) = []"
    and "fxparams (song (state_after (deliver (fxparam_address (Suc k) ''name'') args w))) =
           (fxparams (song w))[k := (fxparams (song w) ! k)\<lparr>fx_name := arg0 args\<rparr>]"
    and "returns (deliver (fxparam_address (Suc k) ''value'') args w)"
    and "events_since w (state_after (deliver (fxparam_address (Suc k) ''value'') args w)) = []"
    and "fxparams (song (state_after (deliver (fxparam_address (Suc k) ''value'') args w))) =
           (fxparams (song w))[k := (fxparams (song w) ! k)\<lparr>fx_value := arg0 args\<rparr>]"
  using wired_fxparams [OF assms(1)] assms(2)
  by (simp_all add: deliver_fx_name [OF assms] deliver_fx_value [OF assms] fxNameListener_def
      fxValueListener_def events_since_def new_emissions_def)

text \<open>
  C5, as the code has it. On an instance reached from construction by any operations,
  one inbound message on the address of a track property (solo, recarm, mute, pan,
  volume, vu, selected) or of a clip property changes that property and nothing else of
  the mirrored state, and emits exactly two events: one on the entity's own emitter under
  the property name, then one on the song's emitter under \<^verbatim>\<open>track:<name>\<close> or
  \<^verbatim>\<open>clip:<name>\<close>, with the ids added; both carry the new value and, as \<open>prev\<close>, the value
  the property had before. A message on the address of a song property changes that
  property and emits exactly one event, on the song's emitter, under the plain event name
  (\<^verbatim>\<open>play\<close>, \<^verbatim>\<open>record\<close>, \<^verbatim>\<open>click\<close>, \<dots>): there is no namespaced second event.
\<close>

theorem one_message_one_update:
  assumes "p < 8" and "i < 8" and "registered (track_address (Suc p) tf) (run acts OSC4Bitwig_new)"
  shows
    "(let w = run acts OSC4Bitwig_new;
          w' = state_after (deliver (song_address sf) args w)
      in returns (deliver (song_address sf) args w) \<and>
         events_since w w' =
           [(SongEvents, song_event sf,
             [(''value'', arg0 args), (''prev'', song_get sf (song w))])] \<and>
         song w' = song_put sf (arg0 args) (song w) \<and> store w' = store w) \<and>
     (let w = run acts OSC4Bitwig_new;
          w' = state_after (deliver (track_address (Suc p) tf) args w)
      in returns (deliver (track_address (Suc p) tf) args w) \<and>
         events_since w w' =
           [(TrackEvents p, track_field_name tf,
             [(''value'', arg0 args), (''prev'', track_get tf (tracks (song w) ! p))]),
            (SongEvents, ''track:'' @ track_field_name tf,
             [(''id'', JNum (of_nat (Suc p))), (''value'', arg0 args),
              (''prev'', track_get tf (tracks (song w) ! p))])] \<and>
         song w' =
           (song w)\<lparr>tracks :=
             (tracks (song w))[p := track_put tf (arg0 args) (tracks (song w) ! p)]\<rparr> \<and>
         store w' = store w) \<and>
     (let w = run acts OSC4Bitwig_new;
          c = t_clips (tracks (song w) ! p) ! i;
          w' = state_after (deliver (clip_address (Suc p) i cf) args w)
      in returns (deliver (clip_address (Suc p) i cf) args w) \<and>
         events_since w w' =
           [(ClipEvents c, clip_field_name cf,
             [(''value'', arg0 args), (''prev'', clip_get cf (store w ! c))]),
            (SongEvents, ''clip:'' @ clip_field_name cf,
             [(''id'', JNum (of_nat i)), (''trackId'', JNum (of_nat (Suc p))),
              (''value'', arg0 args), (''prev'', clip_get cf (store w ! c))])] \<and>
         store w' = (store w)[c := clip_put cf (arg0 args) (store w ! c)] \<and>
         song w' = song w)"
proof -
  have w: "wired (run acts OSC4Bitwig_new)"
    by (rule wired_reachable)
  have tf: "tf \<noteq> T_name"
    using assms(3) registered_track [OF w assms(1)] by simp
  show ?thesis
    unfolding Let_def
    by (simp add: song_message [OF w] track_message [OF w assms(1) tf]
        clip_message [OF w assms(1,2)])
qed

theorem one_message_one_update_witness:
  "(2::nat) < 8 \<and> (1::nat) < 8 \<and> registered (track_address (Suc (2::nat)) T_volume) (run [Inbound (song_address S_playing) [JNum 1]] OSC4Bitwig_new) \<and>
     (let w = run [Inbound (song_address S_playing) [JNum 1]] OSC4Bitwig_new;
          w' = state_after (deliver (song_address S_volume) [JNum 5] w)
      in returns (deliver (song_address S_volume) [JNum 5] w) \<and>
         events_since w w' =
           [(SongEvents, song_event S_volume,
             [(''value'', arg0 [JNum 5]), (''prev'', song_get S_volume (song w))])] \<and>
         song w' = song_put S_volume (arg0 [JNum 5]) (song w) \<and> store w' = store w) \<and>
     (let w = run [Inbound (song_address S_playing) [JNum 1]] OSC4Bitwig_new;
          w' = state_after (deliver (track_address (Suc (2::nat)) T_volume) [JNum 5] w)
      in returns (deliver (track_address (Suc (2::nat)) T_volume) [JNum 5] w) \<and>
         events_since w w' =
           [(TrackEvents (2::nat), track_field_name T_volume,
             [(''value'', arg0 [JNum 5]), (''prev'', track_get T_volume (tracks (song w) ! (2::nat)))]),
            (SongEvents, ''track:'' @ track_field_name T_volume,
             [(''id'', JNum (of_nat (Suc (2::nat)))), (''value'', arg0 [JNum 5]),
              (''prev'', track_get T_volume (tracks (song w) ! (2::nat)))])] \<and>
         song w' =
           (song w)\<lparr>tracks :=
             (tracks (song w))[(2::nat) := track_put T_volume (arg0 [JNum 5]) (tracks (song w) ! (2::nat))]\<rparr> \<and>
         store w' = store w) \<and>
     (let w = run [Inbound (song_address S_playing) [JNum 1]] OSC4Bitwig_new;
          c = t_clips (tracks (song w) ! (2::nat)) ! (1::nat);
          w' = state_after (deliver (clip_address (Suc (2::nat)) (1::nat) C_isPlaying) [JNum 5] w)
      in returns (deliver (clip_address (Suc (2::nat)) (1::nat) C_isPlaying) [JNum 5] w) \<and>
         events_since w w' =
           [(ClipEvents c, clip_field_name C_isPlaying,
             [(''value'', arg0 [JNum 5]), (''prev'', clip_get C_isPlaying (store w ! c))]),
            (SongEvents, ''clip:'' @ clip_field_name C_isPlaying,
             [(''id'', JNum (of_nat (1::nat))), (''trackId'', JNum (of_nat (Suc (2::nat)))),
              (''value'', arg0 [JNum 5]), (''prev'', clip_get C_isPlaying (store w ! c))])] \<and>
         store w' = (store w)[c := clip_put C_isPlaying (arg0 [JNum 5]) (store w ! c)] \<and>
         song w' = song w)"
proof -
  have h: "(2::nat) < 8" "(1::nat) < 8" "registered (track_address (Suc (2::nat)) T_volume) (run [Inbound (song_address S_playing) [JNum 1]] OSC4Bitwig_new)"
    using registered_track [OF wired_reachable [of "[Inbound (song_address S_playing) [JNum 1]]"], where p = "(2::nat)" and f = "T_volume"]
    by simp_all
  show ?thesis
    using h one_message_one_update [OF h, where sf = "S_volume" and cf = "C_isPlaying" and args = "[JNum 5]"]
    by blast
qed

text \<open>
  Order of events on registered addresses. On an instance reached from construction by
  any operations, two messages delivered one after the other on an address that has a
  listener of a song, track or clip property produce their change events in that order,
  and the events of the second carry as \<open>prev\<close> the value of the first. (A song property
  has one event per message, a track or clip property two: on the entity's emitter, then
  on the song's.) The address of a track's \<open>name\<close> has no listener and is not covered.
\<close>

theorem two_messages_two_events:
  assumes "p < 8" and "i < 8" and "registered (track_address (Suc p) tf) (run acts OSC4Bitwig_new)"
  shows
    "(let w = run acts OSC4Bitwig_new;
          w1 = state_after (deliver (song_address sf) ma w);
          w2 = state_after (deliver (song_address sf) mb w1)
      in returns (deliver (song_address sf) ma w) \<and>
         returns (deliver (song_address sf) mb w1) \<and>
         events_since w w2 =
           [(SongEvents, song_event sf,
             [(''value'', arg0 ma), (''prev'', song_get sf (song w))]),
            (SongEvents, song_event sf,
             [(''value'', arg0 mb), (''prev'', arg0 ma)])]) \<and>
     (let w = run acts OSC4Bitwig_new;
          w1 = state_after (deliver (track_address (Suc p) tf) ma w);
          w2 = state_after (deliver (track_address (Suc p) tf) mb w1)
      in returns (deliver (track_address (Suc p) tf) ma w) \<and>
         returns (deliver (track_address (Suc p) tf) mb w1) \<and>
         events_since w w2 =
           [(TrackEvents p, track_field_name tf,
             [(''value'', arg0 ma), (''prev'', track_get tf (tracks (song w) ! p))]),
            (SongEvents, ''track:'' @ track_field_name tf,
             [(''id'', JNum (of_nat (Suc p))), (''value'', arg0 ma),
              (''prev'', track_get tf (tracks (song w) ! p))]),
            (TrackEvents p, track_field_name tf,
             [(''value'', arg0 mb), (''prev'', arg0 ma)]),
            (SongEvents, ''track:'' @ track_field_name tf,
             [(''id'', JNum (of_nat (Suc p))), (''value'', arg0 mb),
              (''prev'', arg0 ma)])]) \<and>
     (let w = run acts OSC4Bitwig_new;
          c = t_clips (tracks (song w) ! p) ! i;
          w1 = state_after (deliver (clip_address (Suc p) i cf) ma w);
          w2 = state_after (deliver (clip_address (Suc p) i cf) mb w1)
      in returns (deliver (clip_address (Suc p) i cf) ma w) \<and>
         returns (deliver (clip_address (Suc p) i cf) mb w1) \<and>
         events_since w w2 =
           [(ClipEvents c, clip_field_name cf,
             [(''value'', arg0 ma), (''prev'', clip_get cf (store w ! c))]),
            (SongEvents, ''clip:'' @ clip_field_name cf,
             [(''id'', JNum (of_nat i)), (''trackId'', JNum (of_nat (Suc p))),
              (''value'', arg0 ma), (''prev'', clip_get cf (store w ! c))]),
            (ClipEvents c, clip_field_name cf,
             [(''value'', arg0 mb), (''prev'', arg0 ma)]),
            (SongEvents, ''clip:'' @ clip_field_name cf,
             [(''id'', JNum (of_nat i)), (''trackId'', JNum (of_nat (Suc p))),
              (''value'', arg0 mb), (''prev'', arg0 ma)])])"
proof -
  have w: "wired (run acts OSC4Bitwig_new)"
    by (rule wired_reachable)
  have tf: "tf \<noteq> T_name"
    using assms(3) registered_track [OF w assms(1)] by simp
  let ?w = "run acts OSC4Bitwig_new"
  note s1 = song_message [OF w]
  note s2 = song_message [OF song_message(5) [OF w, of sf ma]]
  note t1 = track_message [OF w assms(1) tf]
  note t2 = track_message [OF track_message(5) [OF w assms(1) tf, of ma] assms(1) tf]
  note c1 = clip_message [OF w assms(1,2)]
  note c2 = clip_message [OF clip_message(5) [OF w assms(1,2), of cf ma] assms(1,2)]
  have "events_since ?w (song_listener sf (arg0 mb) (song_listener sf (arg0 ma) ?w)) =
          [(SongEvents, song_event sf, [(''value'', arg0 ma), (''prev'', song_get sf (song ?w))]),
           (SongEvents, song_event sf, [(''value'', arg0 mb), (''prev'', arg0 ma)])]"
    by (simp add: events_since_two [OF s1(6) s2(6)] s1(2) s2(2) s1(3))
  moreover have "events_since ?w (track_listener p tf (arg0 mb) (track_listener p tf (arg0 ma) ?w)) =
          [(TrackEvents p, track_field_name tf,
             [(''value'', arg0 ma), (''prev'', track_get tf (tracks (song ?w) ! p))]),
            (SongEvents, ''track:'' @ track_field_name tf,
             [(''id'', JNum (of_nat (Suc p))), (''value'', arg0 ma),
              (''prev'', track_get tf (tracks (song ?w) ! p))]),
            (TrackEvents p, track_field_name tf,
             [(''value'', arg0 mb), (''prev'', arg0 ma)]),
            (SongEvents, ''track:'' @ track_field_name tf,
             [(''id'', JNum (of_nat (Suc p))), (''value'', arg0 mb),
              (''prev'', arg0 ma)])]"
    by (simp add: events_since_two [OF t1(6) t2(6)] t1(2) t2(2) t1(7))
  moreover have "events_since ?w (clip_listener (8 * p + i) cf (arg0 mb)
                    (clip_listener (8 * p + i) cf (arg0 ma) ?w)) =
          [(ClipEvents (8 * p + i), clip_field_name cf,
             [(''value'', arg0 ma), (''prev'', clip_get cf (store ?w ! (8 * p + i)))]),
            (SongEvents, ''clip:'' @ clip_field_name cf,
             [(''id'', JNum (of_nat i)), (''trackId'', JNum (of_nat (Suc p))),
              (''value'', arg0 ma), (''prev'', clip_get cf (store ?w ! (8 * p + i)))]),
            (ClipEvents (8 * p + i), clip_field_name cf,
             [(''value'', arg0 mb), (''prev'', arg0 ma)]),
            (SongEvents, ''clip:'' @ clip_field_name cf,
             [(''id'', JNum (of_nat i)), (''trackId'', JNum (of_nat (Suc p))),
              (''value'', arg0 mb), (''prev'', arg0 ma)])]"
    by (simp add: events_since_two [OF c1(7) c2(7)] c1(2) c2(2) c1(8))
  ultimately show ?thesis
    unfolding Let_def
    by (simp add: s1(1) s2(1) t1(1) t2(1) c1(1) c2(1) c1(6))
qed

theorem two_messages_two_events_witness:
  "(2::nat) < 8 \<and> (1::nat) < 8 \<and> registered (track_address (Suc (2::nat)) T_volume) (run [Inbound (song_address S_playing) [JNum 1]] OSC4Bitwig_new) \<and>
     (let w = run [Inbound (song_address S_playing) [JNum 1]] OSC4Bitwig_new;
          w1 = state_after (deliver (song_address S_volume) [JNum 5] w);
          w2 = state_after (deliver (song_address S_volume) [JNum 7] w1)
      in returns (deliver (song_address S_volume) [JNum 5] w) \<and>
         returns (deliver (song_address S_volume) [JNum 7] w1) \<and>
         events_since w w2 =
           [(SongEvents, song_event S_volume,
             [(''value'', arg0 [JNum 5]), (''prev'', song_get S_volume (song w))]),
            (SongEvents, song_event S_volume,
             [(''value'', arg0 [JNum 7]), (''prev'', arg0 [JNum 5])])]) \<and>
     (let w = run [Inbound (song_address S_playing) [JNum 1]] OSC4Bitwig_new;
          w1 = state_after (deliver (track_address (Suc (2::nat)) T_volume) [JNum 5] w);
          w2 = state_after (deliver (track_address (Suc (2::nat)) T_volume) [JNum 7] w1)
      in returns (deliver (track_address (Suc (2::nat)) T_volume) [JNum 5] w) \<and>
         returns (deliver (track_address (Suc (2::nat)) T_volume) [JNum 7] w1) \<and>
         events_since w w2 =
           [(TrackEvents (2::nat), track_field_name T_volume,
             [(''value'', arg0 [JNum 5]), (''prev'', track_get T_volume (tracks (song w) ! (2::nat)))]),
            (SongEvents, ''track:'' @ track_field_name T_volume,
             [(''id'', JNum (of_nat (Suc (2::nat)))), (''value'', arg0 [JNum 5]),
              (''prev'', track_get T_volume (tracks (song w) ! (2::nat)))]),
            (TrackEvents (2::nat), track_field_name T_volume,
             [(''value'', arg0 [JNum 7]), (''prev'', arg0 [JNum 5])]),
            (SongEvents, ''track:'' @ track_field_name T_volume,
             [(''id'', JNum (of_nat (Suc (2::nat)))), (''value'', arg0 [JNum 7]),
              (''prev'', arg0 [JNum 5])])]) \<and>
     (let w = run [Inbound (song_address S_playing) [JNum 1]] OSC4Bitwig_new;
          c = t_clips (tracks (song w) ! (2::nat)) ! (1::nat);
          w1 = state_after (deliver (clip_address (Suc (2::nat)) (1::nat) C_isPlaying) [JNum 5] w);
          w2 = state_after (deliver (clip_address (Suc (2::nat)) (1::nat) C_isPlaying) [JNum 7] w1)
      in returns (deliver (clip_address (Suc (2::nat)) (1::nat) C_isPlaying) [JNum 5] w) \<and>
         returns (deliver (clip_address (Suc (2::nat)) (1::nat) C_isPlaying) [JNum 7] w1) \<and>
         events_since w w2 =
           [(ClipEvents c, clip_field_name C_isPlaying,
             [(''value'', arg0 [JNum 5]), (''prev'', clip_get C_isPlaying (store w ! c))]),
            (SongEvents, ''clip:'' @ clip_field_name C_isPlaying,
             [(''id'', JNum (of_nat (1::nat))), (''trackId'', JNum (of_nat (Suc (2::nat)))),
              (''value'', arg0 [JNum 5]), (''prev'', clip_get C_isPlaying (store w ! c))]),
            (ClipEvents c, clip_field_name C_isPlaying,
             [(''value'', arg0 [JNum 7]), (''prev'', arg0 [JNum 5])]),
            (SongEvents, ''clip:'' @ clip_field_name C_isPlaying,
             [(''id'', JNum (of_nat (1::nat))), (''trackId'', JNum (of_nat (Suc (2::nat)))),
              (''value'', arg0 [JNum 7]), (''prev'', arg0 [JNum 5])])])"
proof -
  have h: "(2::nat) < 8" "(1::nat) < 8" "registered (track_address (Suc (2::nat)) T_volume) (run [Inbound (song_address S_playing) [JNum 1]] OSC4Bitwig_new)"
    using registered_track [OF wired_reachable [of "[Inbound (song_address S_playing) [JNum 1]]"], where p = "(2::nat)" and f = "T_volume"]
    by simp_all
  show ?thesis
    using h two_messages_two_events [OF h, where sf = "S_volume" and cf = "C_isPlaying" and ma = "[JNum 5]" and mb = "[JNum 7]"]
    by blast
qed

text \<open>
  C1, as the code has it. Every listener of a song, track or clip property emits the
  change event first and assigns the property afterwards. On an instance reached from
  construction by any operations: while the event of an inbound message is being
  emitted, an observer that reads the property back finds the value it had before the
  message, which is the event's \<open>prev\<close>, not its \<open>value\<close>; the property holds the
  event's \<open>value\<close> once the listener has returned.
\<close>

theorem event_emitted_before_assignment:
  assumes "p < 8" and "i < 8" and "registered (track_address (Suc p) tf) (run acts OSC4Bitwig_new)"
  shows
    "(let w = run acts OSC4Bitwig_new;
          w' = state_after (deliver (song_address sf) args w)
      in returns (deliver (song_address sf) args w) \<and>
         new_emissions w w' \<noteq> [] \<and>
         (\<forall>e \<in> set (new_emissions w w').
            song_seen sf e = song_get sf (song w) \<and>
            get_prop ''prev'' (params e) = song_get sf (song w) \<and>
            get_prop ''value'' (params e) = arg0 args) \<and>
         song_get sf (song w') = arg0 args) \<and>
     (let w = run acts OSC4Bitwig_new;
          w' = state_after (deliver (track_address (Suc p) tf) args w)
      in returns (deliver (track_address (Suc p) tf) args w) \<and>
         new_emissions w w' \<noteq> [] \<and>
         (\<forall>e \<in> set (new_emissions w w').
            track_seen p tf e = track_get tf (tracks (song w) ! p) \<and>
            get_prop ''prev'' (params e) = track_get tf (tracks (song w) ! p) \<and>
            get_prop ''value'' (params e) = arg0 args) \<and>
         track_get tf (tracks (song w') ! p) = arg0 args) \<and>
     (let w = run acts OSC4Bitwig_new;
          c = t_clips (tracks (song w) ! p) ! i;
          w' = state_after (deliver (clip_address (Suc p) i cf) args w)
      in returns (deliver (clip_address (Suc p) i cf) args w) \<and>
         new_emissions w w' \<noteq> [] \<and>
         (\<forall>e \<in> set (new_emissions w w').
            clip_seen c cf e = clip_get cf (store w ! c) \<and>
            get_prop ''prev'' (params e) = clip_get cf (store w ! c) \<and>
            get_prop ''value'' (params e) = arg0 args) \<and>
         clip_get cf (store w' ! c) = arg0 args)"
proof -
  have w: "wired (run acts OSC4Bitwig_new)"
    by (rule wired_reachable)
  have tf: "tf \<noteq> T_name"
    using assms(3) registered_track [OF w assms(1)] by simp
  let ?w = "run acts OSC4Bitwig_new"
  note s = song_message [OF w]
  note t = track_message [OF w assms(1) tf]
  note c = clip_message [OF w assms(1,2)]
  have "new_emissions ?w (song_listener sf (arg0 args) ?w) \<noteq> [] \<and>
        (\<forall>e \<in> set (new_emissions ?w (song_listener sf (arg0 args) ?w)).
            song_seen sf e = song_get sf (song ?w) \<and>
            get_prop ''prev'' (params e) = song_get sf (song ?w) \<and>
            get_prop ''value'' (params e) = arg0 args)"
    by (simp add: song_listener_eq song_seen_def)
  moreover have "new_emissions ?w (track_listener p tf (arg0 args) ?w) \<noteq> [] \<and>
        (\<forall>e \<in> set (new_emissions ?w (track_listener p tf (arg0 args) ?w)).
            track_seen p tf e = track_get tf (tracks (song ?w) ! p) \<and>
            get_prop ''prev'' (params e) = track_get tf (tracks (song ?w) ! p) \<and>
            get_prop ''value'' (params e) = arg0 args)"
    by (simp add: track_listener_eq track_seen_def)
  moreover have "new_emissions ?w (clip_listener (8 * p + i) cf (arg0 args) ?w) \<noteq> [] \<and>
        (\<forall>e \<in> set (new_emissions ?w (clip_listener (8 * p + i) cf (arg0 args) ?w)).
            clip_seen (8 * p + i) cf e = clip_get cf (store ?w ! (8 * p + i)) \<and>
            get_prop ''prev'' (params e) = clip_get cf (store ?w ! (8 * p + i)) \<and>
            get_prop ''value'' (params e) = arg0 args)"
    by (simp add: clip_listener_eq clip_seen_def)
  ultimately show ?thesis
    unfolding Let_def
    by (simp add: s(1) s(3) t(1) t(7) c(1) c(6) c(8))
qed

theorem event_emitted_before_assignment_witness:
  "(2::nat) < 8 \<and> (1::nat) < 8 \<and> registered (track_address (Suc (2::nat)) T_volume) (run [Inbound (song_address S_playing) [JNum 1]] OSC4Bitwig_new) \<and>
     (let w = run [Inbound (song_address S_playing) [JNum 1]] OSC4Bitwig_new;
          w' = state_after (deliver (song_address S_volume) [JNum 5] w)
      in returns (deliver (song_address S_volume) [JNum 5] w) \<and>
         new_emissions w w' \<noteq> [] \<and>
         (\<forall>e \<in> set (new_emissions w w').
            song_seen S_volume e = song_get S_volume (song w) \<and>
            get_prop ''prev'' (params e) = song_get S_volume (song w) \<and>
            get_prop ''value'' (params e) = arg0 [JNum 5]) \<and>
         song_get S_volume (song w') = arg0 [JNum 5]) \<and>
     (let w = run [Inbound (song_address S_playing) [JNum 1]] OSC4Bitwig_new;
          w' = state_after (deliver (track_address (Suc (2::nat)) T_volume) [JNum 5] w)
      in returns (deliver (track_address (Suc (2::nat)) T_volume) [JNum 5] w) \<and>
         new_emissions w w' \<noteq> [] \<and>
         (\<forall>e \<in> set (new_emissions w w').
            track_seen (2::nat) T_volume e = track_get T_volume (tracks (song w) ! (2::nat)) \<and>
            get_prop ''prev'' (params e) = track_get T_volume (tracks (song w) ! (2::nat)) \<and>
            get_prop ''value'' (params e) = arg0 [JNum 5]) \<and>
         track_get T_volume (tracks (song w') ! (2::nat)) = arg0 [JNum 5]) \<and>
     (let w = run [Inbound (song_address S_playing) [JNum 1]] OSC4Bitwig_new;
          c = t_clips (tracks (song w) ! (2::nat)) ! (1::nat);
          w' = state_after (deliver (clip_address (Suc (2::nat)) (1::nat) C_isPlaying) [JNum 5] w)
      in returns (deliver (clip_address (Suc (2::nat)) (1::nat) C_isPlaying) [JNum 5] w) \<and>
         new_emissions w w' \<noteq> [] \<and>
         (\<forall>e \<in> set (new_emissions w w').
            clip_seen c C_isPlaying e = clip_get C_isPlaying (store w ! c) \<and>
            get_prop ''prev'' (params e) = clip_get C_isPlaying (store w ! c) \<and>
            get_prop ''value'' (params e) = arg0 [JNum 5]) \<and>
         clip_get C_isPlaying (store w' ! c) = arg0 [JNum 5])"
proof -
  have h: "(2::nat) < 8" "(1::nat) < 8" "registered (track_address (Suc (2::nat)) T_volume) (run [Inbound (song_address S_playing) [JNum 1]] OSC4Bitwig_new)"
    using registered_track [OF wired_reachable [of "[Inbound (song_address S_playing) [JNum 1]]"], where p = "(2::nat)" and f = "T_volume"]
    by simp_all
  show ?thesis
    using h event_emitted_before_assignment [OF h, where sf = "S_volume" and cf = "C_isPlaying" and args = "[JNum 5]"]
    by blast
qed

text \<open>
  C9. The events of a send carry a \<open>prev\<close> read from the track itself: the \<^verbatim>\<open>sendName\<close>
  event (and its \<^verbatim>\<open>track:sendName\<close> copy on the song's emitter) has the track's
  \<open>name\<close> as \<open>prev\<close>, the \<^verbatim>\<open>sendVolume\<close> event the track's \<open>volume\<close>, whatever the
  send's own name and volume were.
\<close>

theorem send_event_prev_is_track_property:
  assumes "p < 8" and "i < 6"
  shows
    "(let w = run acts OSC4Bitwig_new;
          w' = state_after (deliver (send_address (Suc p) i ''name'') args w)
      in returns (deliver (send_address (Suc p) i ''name'') args w) \<and>
         events_since w w' =
           [(TrackEvents p, ''sendName'',
             [(''num'', JNum (of_nat i)), (''value'', arg0 args),
              (''prev'', t_name (tracks (song w) ! p))]),
            (SongEvents, ''track:sendName'',
             [(''id'', JNum (of_nat (Suc p))), (''num'', JNum (of_nat i)),
              (''value'', arg0 args), (''prev'', t_name (tracks (song w) ! p))])]) \<and>
     (let w = run acts OSC4Bitwig_new;
          w' = state_after (deliver (send_address (Suc p) i ''volume'') args w)
      in returns (deliver (send_address (Suc p) i ''volume'') args w) \<and>
         events_since w w' =
           [(TrackEvents p, ''sendVolume'',
             [(''num'', JNum (of_nat i)), (''value'', arg0 args),
              (''prev'', t_volume (tracks (song w) ! p))]),
            (SongEvents, ''track:sendVolume'',
             [(''id'', JNum (of_nat (Suc p))), (''num'', JNum (of_nat i)),
              (''value'', arg0 args), (''prev'', t_volume (tracks (song w) ! p))])])"
proof -
  have w: "wired (run acts OSC4Bitwig_new)"
    by (rule wired_reachable)
  show ?thesis
    unfolding Let_def
    by (simp add: send_name_message [OF w assms] send_volume_message [OF w assms])
qed

theorem send_event_prev_is_track_property_witness:
  "(2::nat) < 8 \<and> (1::nat) < 6 \<and>
     (let w = run [Inbound (song_address S_playing) [JNum 1]] OSC4Bitwig_new;
          w' = state_after (deliver (send_address (Suc (2::nat)) (1::nat) ''name'') [JNum 5] w)
      in returns (deliver (send_address (Suc (2::nat)) (1::nat) ''name'') [JNum 5] w) \<and>
         events_since w w' =
           [(TrackEvents (2::nat), ''sendName'',
             [(''num'', JNum (of_nat (1::nat))), (''value'', arg0 [JNum 5]),
              (''prev'', t_name (tracks (song w) ! (2::nat)))]),
            (SongEvents, ''track:sendName'',
             [(''id'', JNum (of_nat (Suc (2::nat)))), (''num'', JNum (of_nat (1::nat))),
              (''value'', arg0 [JNum 5]), (''prev'', t_name (tracks (song w) ! (2::nat)))])]) \<and>
     (let w = run [Inbound (song_address S_playing) [JNum 1]] OSC4Bitwig_new;
          w' = state_after (deliver (send_address (Suc (2::nat)) (1::nat) ''volume'') [JNum 5] w)
      in returns (deliver (send_address (Suc (2::nat)) (1::nat) ''volume'') [JNum 5] w) \<and>
         events_since w w' =
           [(TrackEvents (2::nat), ''sendVolume'',
             [(''num'', JNum (of_nat (1::nat))), (''value'', arg0 [JNum 5]),
              (''prev'', t_volume (tracks (song w) ! (2::nat)))]),
            (SongEvents, ''track:sendVolume'',
             [(''id'', JNum (of_nat (Suc (2::nat)))), (''num'', JNum (of_nat (1::nat))),
              (''value'', arg0 [JNum 5]), (''prev'', t_volume (tracks (song w) ! (2::nat)))])])"
proof -
  have h: "(2::nat) < 8" "(1::nat) < 6"
    by simp_all
  show ?thesis
    using h send_event_prev_is_track_property [OF h, where acts = "[Inbound (song_address S_playing) [JNum 1]]" and args = "[JNum 5]"]
    by blast
qed

text \<open>
  C3, as the code has it. On an instance reached from construction by any operations, a
  message for the name or the value of a device parameter is assigned to the slot and
  emits no event. A message for the name or the volume of a send is assigned to the send
  and does emit: \<^verbatim>\<open>sendName\<close> or \<^verbatim>\<open>sendVolume\<close> on the track's emitter, then
  \<^verbatim>\<open>track:sendName\<close> or \<^verbatim>\<open>track:sendVolume\<close> on the song's.
\<close>

theorem subfield_updates:
  assumes "p < 8" and "i < 6" and "k < 8"
  shows
    "(let w = run acts OSC4Bitwig_new;
          w' = state_after (deliver (fxparam_address (Suc k) ''name'') args w)
      in returns (deliver (fxparam_address (Suc k) ''name'') args w) \<and>
         events_since w w' = [] \<and>
         fxparams (song w') =
           (fxparams (song w))[k := (fxparams (song w) ! k)\<lparr>fx_name := arg0 args\<rparr>]) \<and>
     (let w = run acts OSC4Bitwig_new;
          w' = state_after (deliver (fxparam_address (Suc k) ''value'') args w)
      in returns (deliver (fxparam_address (Suc k) ''value'') args w) \<and>
         events_since w w' = [] \<and>
         fxparams (song w') =
           (fxparams (song w))[k := (fxparams (song w) ! k)\<lparr>fx_value := arg0 args\<rparr>]) \<and>
     (let w = run acts OSC4Bitwig_new;
          w' = state_after (deliver (send_address (Suc p) i ''name'') args w)
      in returns (deliver (send_address (Suc p) i ''name'') args w) \<and>
         t_sends (tracks (song w') ! p) =
           (t_sends (tracks (song w) ! p))
             [i := (t_sends (tracks (song w) ! p) ! i)\<lparr>send_name := arg0 args\<rparr>] \<and>
         map fst (events_since w w') = [TrackEvents p, SongEvents] \<and>
         map (fst \<circ> snd) (events_since w w') = [''sendName'', ''track:sendName'']) \<and>
     (let w = run acts OSC4Bitwig_new;
          w' = state_after (deliver (send_address (Suc p) i ''volume'') args w)
      in returns (deliver (send_address (Suc p) i ''volume'') args w) \<and>
         t_sends (tracks (song w') ! p) =
           (t_sends (tracks (song w) ! p))
             [i := (t_sends (tracks (song w) ! p) ! i)\<lparr>send_volume := arg0 args\<rparr>] \<and>
         map fst (events_since w w') = [TrackEvents p, SongEvents] \<and>
         map (fst \<circ> snd) (events_since w w') = [''sendVolume'', ''track:sendVolume''])"
proof -
  have w: "wired (run acts OSC4Bitwig_new)"
    by (rule wired_reachable)
  show ?thesis
    unfolding Let_def
    by (simp add: send_name_message [OF w assms(1,2)] send_volume_message [OF w assms(1,2)]
        fx_message [OF w assms(3)])
qed

theorem subfield_updates_witness:
  "(2::nat) < 8 \<and> (1::nat) < 6 \<and> (3::nat) < 8 \<and>
     (let w = run [Inbound (song_address S_playing) [JNum 1]] OSC4Bitwig_new;
          w' = state_after (deliver (fxparam_address (Suc (3::nat)) ''name'') [JNum 5] w)
      in returns (deliver (fxparam_address (Suc (3::nat)) ''name'') [JNum 5] w) \<and>
         events_since w w' = [] \<and>
         fxparams (song w') =
           (fxparams (song w))[(3::nat) := (fxparams (song w) ! (3::nat))\<lparr>fx_name := arg0 [JNum 5]\<rparr>]) \<and>
     (let w = run [Inbound (song_address S_playing) [JNum 1]] OSC4Bitwig_new;
          w' = state_after (deliver (fxparam_address (Suc (3::nat)) ''value'') [JNum 5] w)
      in returns (deliver (fxparam_address (Suc (3::nat)) ''value'') [JNum 5] w) \<and>
         events_since w w' = [] \<and>
         fxparams (song w') =
           (fxparams (song w))[(3::nat) := (fxparams (song w) ! (3::nat))\<lparr>fx_value := arg0 [JNum 5]\<rparr>]) \<and>
     (let w = run [Inbound (song_address S_playing) [JNum 1]] OSC4Bitwig_new;
          w' = state_after (deliver (send_address (Suc (2::nat)) (1::nat) ''name'') [JNum 5] w)
      in returns (deliver (send_address (Suc (2::nat)) (1::nat) ''name'') [JNum 5] w) \<and>
         t_sends (tracks (song w') ! (2::nat)) =
           (t_sends (tracks (song w) ! (2::nat)))
             [(1::nat) := (t_sends (tracks (song w) ! (2::nat)) ! (1::nat))\<lparr>send_name := arg0 [JNum 5]\<rparr>] \<and>
         map fst (events_since w w') = [TrackEvents (2::nat), SongEvents] \<and>
         map (fst \<circ> snd) (events_since w w') = [''sendName'', ''track:sendName'']) \<and>
     (let w = run [Inbound (song_address S_playing) [JNum 1]] OSC4Bitwig_new;
          w' = state_after (deliver (send_address (Suc (2::nat)) (1::nat) ''volume'') [JNum 5] w)
      in returns (deliver (send_address (Suc (2::nat)) (1::nat) ''volume'') [JNum 5] w) \<and>
         t_sends (tracks (song w') ! (2::nat)) =
           (t_sends (tracks (song w) ! (2::nat)))
             [(1::nat) := (t_sends (tracks (song w) ! (2::nat)) ! (1::nat))\<lparr>send_volume := arg0 [JNum 5]\<rparr>] \<and>
         map fst (events_since w w') = [TrackEvents (2::nat), SongEvents] \<and>
         map (fst \<circ> snd) (events_since w w') = [''sendVolume'', ''track:sendVolume''])"
proof -
  have h: "(2::nat) < 8" "(1::nat) < 6" "(3::nat) < 8"
    by simp_all
  show ?thesis
    using h subfield_updates [OF h, where acts = "[Inbound (song_address S_playing) [JNum 1]]" and args = "[JNum 5]"]
    by blast
qed

section \<open>A new instance\<close>

lemma new_song_property:
  "song_get f (song OSC4Bitwig_new) =
     (if f \<in> {S_solo, S_mute, S_recarm, S_selected} then JUndefined else JNum 0)"
  by (cases f) (simp_all add: OSC4Bitwig_new_eq)

lemma new_track:
  "p < 8 \<Longrightarrow> tracks (song OSC4Bitwig_new) ! p = Track_built (Suc p) (8 * p)"
  by (simp add: OSC4Bitwig_new_eq)

lemma new_track_property:
  "p < 8 \<Longrightarrow> track_get f (tracks (song OSC4Bitwig_new) ! p) =
     (if f \<in> {T_name, T_vu} then JUndefined else if f = T_recarm then JBool False else JNum 0)"
  by (cases f) (simp_all add: new_track Track_built_def Track_init_def)

lemma literal_addresses:
  "song_address S_playing = ''/play''"
  "track_address (Suc 0) T_name = ''/track/1/name''"
  "send_address (Suc 0) 0 ''name'' = ''/track/1/send/0/name''"
  by (simp_all add: addr_defs show_nat_values)

text \<open>
  C5 as stated fails for the properties of the song: a message on \<^verbatim>\<open>/play\<close> to a new
  instance emits one event in all, on the song's emitter under the name \<^verbatim>\<open>play\<close>.
\<close>

theorem song_event_not_namespaced:
  "events_since OSC4Bitwig_new (state_after (deliver ''/play'' [JNum 1] OSC4Bitwig_new)) =
     [(SongEvents, ''play'', [(''value'', JNum 1), (''prev'', JNum 0)])]"
  using song_message(1,2) [OF wired_new, of S_playing "[JNum 1]"]
  by (simp add: literal_addresses new_song_property [of S_playing, simplified])

text \<open>
  C1 as stated fails: while the one event of a message on \<^verbatim>\<open>/play\<close> with 1 to a new
  instance is emitted, \<open>playing\<close> still reads 0.
\<close>

theorem observer_reads_old_value:
  "length (new_emissions OSC4Bitwig_new
             (state_after (deliver ''/play'' [JNum 1] OSC4Bitwig_new))) = 1 \<and>
   get_prop ''value'' (params (hd (new_emissions OSC4Bitwig_new
             (state_after (deliver ''/play'' [JNum 1] OSC4Bitwig_new))))) = JNum 1 \<and>
   song_seen S_playing (hd (new_emissions OSC4Bitwig_new
             (state_after (deliver ''/play'' [JNum 1] OSC4Bitwig_new)))) = JNum 0"
  using song_message(1) [OF wired_new, of S_playing "[JNum 1]"]
  by (simp add: literal_addresses song_listener_eq song_seen_def new_emissions_def
      new_song_property [of S_playing, simplified])

text \<open>
  C3 as stated fails for sends: a message for the name of send 0 of track 1 to a new
  instance emits two events.
\<close>

theorem send_update_emits:
  "events_since OSC4Bitwig_new
     (state_after (deliver ''/track/1/send/0/name'' [JStr ''Reverb''] OSC4Bitwig_new)) =
     [(TrackEvents 0, ''sendName'',
       [(''num'', JNum 0), (''value'', JStr ''Reverb''), (''prev'', JUndefined)]),
      (SongEvents, ''track:sendName'',
       [(''id'', JNum 1), (''num'', JNum 0), (''value'', JStr ''Reverb''),
        (''prev'', JUndefined)])]"
  using send_name_message(2) [OF wired_new, of 0 0 "[JStr ''Reverb'']"]
  by (simp add: literal_addresses new_track_property [of 0 T_name, simplified])

text \<open>
  C10 on the code. \<open>name\<close> and \<open>vu\<close> of a track and \<open>solo\<close>, \<open>mute\<close>, \<open>recarm\<close>,
  \<open>selected\<close> of the song are undefined on a new instance. No listener is registered for
  \<^verbatim>\<open>/track/1/name\<close>: the message changes nothing and emits nothing.
\<close>

theorem track_name_message_is_dropped:
  "t_name (tracks (song OSC4Bitwig_new) ! 0) = JUndefined \<and>
   handlers ''/track/1/name'' (receiver OSC4Bitwig_new) = [] \<and>
   deliver ''/track/1/name'' [JStr ''Bass''] OSC4Bitwig_new = Inr OSC4Bitwig_new"
  using deliver_track_name [OF wired_new, of 0 "[JStr ''Bass'']"]
    handlers_track [of 0 T_name] wired_receiver [OF wired_new]
  by (simp add: literal_addresses new_track_property [of 0 T_name, simplified])

text \<open>
  C6 on the code. \<open>name\<close> is a property of a track and \<^verbatim>\<open>/track/1/name\<close> its address, but
  \<^verbatim>\<open>nameListener\<close> is registered nowhere: two messages delivered one after the other on
  that address to a new instance both return, emit no event at all and leave the
  instance as it was, where the claim has two change events, the second with the first
  one's value as \<open>prev\<close>.
\<close>

theorem track_name_messages_emit_nothing:
  "returns (deliver ''/track/1/name'' [JStr ''Bass''] OSC4Bitwig_new) \<and>
   returns (deliver ''/track/1/name'' [JStr ''Drums'']
              (state_after (deliver ''/track/1/name'' [JStr ''Bass''] OSC4Bitwig_new))) \<and>
   events_since OSC4Bitwig_new
     (state_after (deliver ''/track/1/name'' [JStr ''Drums'']
        (state_after (deliver ''/track/1/name'' [JStr ''Bass''] OSC4Bitwig_new)))) = [] \<and>
   state_after (deliver ''/track/1/name'' [JStr ''Drums'']
     (state_after (deliver ''/track/1/name'' [JStr ''Bass''] OSC4Bitwig_new))) = OSC4Bitwig_new"
  using deliver_track_name [OF wired_new, of 0 "[JStr ''Bass'']"]
    deliver_track_name [OF wired_new, of 0 "[JStr ''Drums'']"]
  by (simp add: literal_addresses events_since_def new_emissions_def)

text \<open>The other five properties do behave as C10 says: the first event has \<open>prev\<close>
  undefined.\<close>

lemma first_event_prev_undefined:
  assumes "p < 8" and "sf \<in> {S_solo, S_mute, S_recarm, S_selected}"
  shows "events_since OSC4Bitwig_new (state_after (deliver (song_address sf) args OSC4Bitwig_new)) =
           [(SongEvents, song_event sf, [(''value'', arg0 args), (''prev'', JUndefined)])]"
    and "events_since OSC4Bitwig_new
           (state_after (deliver (track_address (Suc p) T_vu) args OSC4Bitwig_new)) =
           [(TrackEvents p, ''vu'', [(''value'', arg0 args), (''prev'', JUndefined)]),
            (SongEvents, ''track:vu'',
             [(''id'', JNum (of_nat (Suc p))), (''value'', arg0 args), (''prev'', JUndefined)])]"
  using assms song_message(1,2) [OF wired_new, of sf args]
    track_message(1,2) [OF wired_new, of p T_vu args]
    new_track_property [of p T_vu, simplified]
  by (simp_all add: new_song_property)

text \<open>
  C2 on the code. On a new instance, after \<^verbatim>\<open>setNumScenes(2)\<close> on the first track,
  \<^verbatim>\<open>refreshClips()\<close> throws at \<^verbatim>\<open>clip.destroy()\<close> and leaves the instance as it was: the
  eight clips of the constructor are still there and nothing was sent.
\<close>

theorem refresh_throws:
  "step (RefreshClips 0) (run [SetNumScenes 0 2] OSC4Bitwig_new) =
     Inl (TypeError, run [SetNumScenes 0 2] OSC4Bitwig_new) \<and>
   t_numScenes (tracks (song (run [SetNumScenes 0 2] OSC4Bitwig_new)) ! 0) = Some 2 \<and>
   length (t_clips (tracks (song (run [SetNumScenes 0 2] OSC4Bitwig_new)) ! 0)) = 8 \<and>
   sent (run [SetNumScenes 0 2] OSC4Bitwig_new) = []"
proof -
  let ?w = "run [SetNumScenes 0 2] OSC4Bitwig_new"
  have w: "wired ?w" by (rule wired_reachable)
  have ne: "tracks (song OSC4Bitwig_new) \<noteq> []"
    using wired_tracks [OF wired_new] by auto
  have "step (RefreshClips 0) ?w = Inl (TypeError, ?w)"
    using wired_refreshClips [OF w, of 0] wired_tracks [OF w] by simp
  moreover have "t_numScenes (tracks (song ?w) ! 0) = Some 2"
    using ne by (simp add: run_def Track_setNumScenes_def upd_track_def)
  moreover have "length (t_clips (tracks (song ?w) ! 0)) = 8"
    using wired_t_clips [OF w, of 0] by simp
  moreover have "sent ?w = []"
    using ne by (simp add: run_def Track_setNumScenes_def upd_track_def)
  ultimately show ?thesis by simp
qed

section \<open>Ids\<close>

lemma ids_kept_refl [simp]: "ids_kept w w"
  by (simp add: ids_kept_def)

lemma ids_kept_trans: "ids_kept w w1 \<Longrightarrow> ids_kept w1 w2 \<Longrightarrow> ids_kept w w2"
proof -
  assume 1: "ids_kept w w1" and 2: "ids_kept w1 w2"
  let ?n = "length (store w)" and ?m = "length (store w1)"
  have a: "take ?n (map c_id (store w1)) = map c_id (store w)"
    and b: "take ?m (map c_id (store w2)) = map c_id (store w1)"
    using 1 2 by (simp_all add: ids_kept_def)
  have "length (take ?n (map c_id (store w1))) = ?n"
    using a by simp
  then have le: "?n \<le> ?m" by simp
  have "take ?n (map c_id (store w2)) = take ?n (take ?m (map c_id (store w2)))"
    using le by (simp add: min_def)
  also have "\<dots> = map c_id (store w)"
    using a b by simp
  finally show ?thesis using 1 2 by (simp add: ids_kept_def)
qed

lemma ids_kept_same:
  "map t_id (tracks (song w')) = map t_id (tracks (song w)) \<Longrightarrow>
   map c_id (store w') = map c_id (store w) \<Longrightarrow> ids_kept w w'"
  by (simp add: ids_kept_def)

lemma ids_kept_frame: "frame w' = frame w \<Longrightarrow> ids_kept w w'"
  by (rule ids_kept_same) (simp_all add: frame_def)

lemma ids_kept_upd_track:
  "(\<And>t. t_id (g t) = t_id t) \<Longrightarrow> ids_kept w (upd_track p g w)"
  by (rule ids_kept_same) (simp_all add: upd_track_def map_update_same)

lemma ids_kept_Clip_new: "ids_kept w (snd (Clip_new p i w))"
  by (simp add: Clip_new_eq ids_kept_def)

lemma ids_kept_refresh_loop: "ids_kept w (refresh_loop p n i w)"
proof (induction p n i w rule: refresh_loop.induct)
  case (1 this numScenes i w)
  show ?case
  proof (cases "below i numScenes")
    case False
    then show ?thesis by (simp add: refresh_loop.simps)
  next
    case True
    let ?w1 = "snd (Clip_new this i w)"
    let ?w2 = "osc_emit ''/track/#/clip/info''
                 [Typed OInteger (JNum (of_nat (t_id (tracks (song ?w1) ! this)))),
                  Typed OInteger (JNum (of_nat i))]
                 (upd_track this (\<lambda>t. t\<lparr>t_clips := t_clips t @ [fst (Clip_new this i w)]\<rparr>) ?w1)"
    have step: "refresh_loop this numScenes i w = refresh_loop this numScenes (i + 1) ?w2"
      using True by (subst refresh_loop.simps) (simp add: case_prod_unfold)
    have "ids_kept ?w1 ?w2"
      by (rule ids_kept_same) (simp_all add: osc_emit_def upd_track_def map_update_same)
    then have "ids_kept w ?w2"
      using ids_kept_Clip_new [of w this i] by (rule ids_kept_trans [rotated])
    moreover have "ids_kept ?w2 (refresh_loop this numScenes (i + 1) ?w2)"
      using "1.IH" [OF True, of "fst (Clip_new this i w)" ?w1] by simp
    ultimately show ?thesis
      unfolding step by (rule ids_kept_trans)
  qed
qed

lemma ids_kept_refreshClips: "ids_kept w (state_after (Track_refreshClips p w))"
proof (cases "t_clips (tracks (song w) ! p) \<noteq> []")
  case True
  then show ?thesis by (simp add: Track_refreshClips_def)
next
  case False
  let ?w0 = "upd_track p (\<lambda>t. t\<lparr>t_clips := []\<rparr>) w"
  have "ids_kept w ?w0" by (rule ids_kept_upd_track) simp
  then have "ids_kept w (refresh_loop p (t_numScenes (tracks (song w) ! p)) 0 ?w0)"
    using ids_kept_refresh_loop by (rule ids_kept_trans)
  then show ?thesis using False by (simp add: Track_refreshClips_def)
qed

lemma ids_kept_step: "ids_kept w (state_after (step a w))"
proof (cases a)
  case (Inbound address args)
  then show ?thesis by (simp add: ids_kept_frame)
next
  case (Call c)
  then show ?thesis by (simp add: ids_kept_frame)
next
  case (SetNumScenes p n)
  then show ?thesis by (simp add: Track_setNumScenes_def ids_kept_upd_track)
next
  case (RefreshClips p)
  then show ?thesis by (simp add: ids_kept_refreshClips)
qed

lemma ids_kept_run: "ids_kept w (run acts w)"
proof (induction acts arbitrary: w)
  case Nil
  show ?case by (simp add: run_def)
next
  case (Cons a acts)
  have "run (a # acts) w = run acts (state_after (step a w))"
    by (simp add: run_def)
  then show ?case
    using ids_kept_trans [OF ids_kept_step [of w a] Cons.IH [of "state_after (step a w)"]]
    by simp
qed

lemma ids_kept_track:
  assumes "ids_kept w w'" and "p < length (tracks (song w))"
  shows "p < length (tracks (song w')) \<and> t_id (tracks (song w') ! p) = t_id (tracks (song w) ! p)"
proof -
  have eq: "map t_id (tracks (song w')) = map t_id (tracks (song w))"
    using assms(1) by (simp add: ids_kept_def)
  then have "length (map t_id (tracks (song w'))) = length (map t_id (tracks (song w)))"
    by simp
  then have len: "p < length (tracks (song w'))" using assms(2) by simp
  have "map t_id (tracks (song w')) ! p = map t_id (tracks (song w)) ! p"
    using eq by simp
  then show ?thesis using len assms(2) by simp
qed

lemma ids_kept_clip:
  assumes "ids_kept w w'" and "c < length (store w)"
  shows "c < length (store w') \<and> c_id (store w' ! c) = c_id (store w ! c)"
proof -
  have eq: "take (length (store w)) (map c_id (store w')) = map c_id (store w)"
    using assms(1) by (simp add: ids_kept_def)
  then have "length (take (length (store w)) (map c_id (store w'))) = length (store w)"
    by simp
  then have len: "c < length (store w')" using assms(2) by simp
  have "take (length (store w)) (map c_id (store w')) ! c = map c_id (store w) ! c"
    using eq by simp
  then show ?thesis using len assms(2) by simp
qed

text \<open>
  C8. The id of a track or of a clip that exists is the same after any sequence of
  inbound messages, outbound commands, \<^verbatim>\<open>setNumScenes\<close> and \<^verbatim>\<open>refreshClips\<close> calls (on any
  track, returning or throwing). On an instance reached from construction the track at
  position \<open>p\<close> keeps the id \<open>p + 1\<close> and its \<open>i\<close>-th clip the id \<open>i\<close>.
\<close>

theorem ids_are_stable:
  "(p < length (tracks (song w)) \<longrightarrow>
      p < length (tracks (song (run acts w))) \<and>
      t_id (tracks (song (run acts w)) ! p) = t_id (tracks (song w) ! p)) \<and>
   (c < length (store w) \<longrightarrow>
      c < length (store (run acts w)) \<and>
      c_id (store (run acts w) ! c) = c_id (store w ! c)) \<and>
   (q < 8 \<and> i < 8 \<longrightarrow>
      t_id (tracks (song (run acts OSC4Bitwig_new)) ! q) = q + 1 \<and>
      c_id (store (run acts OSC4Bitwig_new) !
              (t_clips (tracks (song (run acts OSC4Bitwig_new)) ! q) ! i)) = i)"
proof -
  have w: "wired (run acts OSC4Bitwig_new)"
    by (rule wired_reachable)
  have "q < 8 \<and> i < 8 \<longrightarrow>
      t_id (tracks (song (run acts OSC4Bitwig_new)) ! q) = q + 1 \<and>
      c_id (store (run acts OSC4Bitwig_new) !
              (t_clips (tracks (song (run acts OSC4Bitwig_new)) ! q) ! i)) = i"
    using wired_t_id [OF w, of q] wired_t_clips [OF w, of q] wired_c_id [OF w, of q i]
    by simp
  then show ?thesis
    using ids_kept_track [OF ids_kept_run, of p w acts] ids_kept_clip [OF ids_kept_run, of c w acts]
    by blast
qed

theorem ids_are_stable_witness:
  "(0::nat) < length (tracks (song OSC4Bitwig_new)) \<and> (9::nat) < length (store OSC4Bitwig_new) \<and>
   (2::nat) < 8 \<and> (1::nat) < 8 \<and>
   t_id (tracks (song (run [Inbound ''/track/1/volume'' [JNum 1], SetNumScenes 1 2,
                            RefreshClips 1, Call (TrackSetVolume 0 (JNum 64))] OSC4Bitwig_new)) ! 0) =
     t_id (tracks (song OSC4Bitwig_new) ! 0) \<and>
   c_id (store (run [Inbound ''/track/1/volume'' [JNum 1], SetNumScenes 1 2,
                     RefreshClips 1, Call (TrackSetVolume 0 (JNum 64))] OSC4Bitwig_new) ! 9) =
     c_id (store OSC4Bitwig_new ! 9) \<and>
   t_id (tracks (song (run [Inbound ''/track/1/volume'' [JNum 1], SetNumScenes 1 2,
                            RefreshClips 1, Call (TrackSetVolume 0 (JNum 64))] OSC4Bitwig_new)) ! 2) = 2 + 1"
proof -
  have h: "(0::nat) < length (tracks (song OSC4Bitwig_new))" "(9::nat) < length (store OSC4Bitwig_new)"
    "(2::nat) < 8" "(1::nat) < 8"
    using wired_tracks [OF wired_new] wired_store [OF wired_new] by simp_all
  show ?thesis
    using h ids_are_stable [of 0 OSC4Bitwig_new
        "[Inbound ''/track/1/volume'' [JNum 1], SetNumScenes 1 2,
          RefreshClips 1, Call (TrackSetVolume 0 (JNum 64))]" 9 2 1]
    by blast
qed

section \<open>Clip refresh on a track without clips\<close>

lemma refresh_loop_closed:
  "p < length (tracks (song w)) \<Longrightarrow>
   refresh_loop p (Some (i + k)) i w =
     w\<lparr>song := (song w)\<lparr>tracks := (tracks (song w))[p := (tracks (song w) ! p)
              \<lparr>t_clips := t_clips (tracks (song w) ! p) @ map (\<lambda>j. length (store w) + j) [0..<k]\<rparr>]\<rparr>,
       store := store w @ map (\<lambda>j. Clip_init p (i + j)) [0..<k],
       receiver := receiver w @
         concat (map (\<lambda>j. clip_table (t_id (tracks (song w) ! p)) (i + j) (length (store w) + j)) [0..<k]),
       sent := sent w @
         map (\<lambda>j. (''/track/#/clip/info'',
                    [Typed OInteger (JNum (of_nat (t_id (tracks (song w) ! p)))),
                     Typed OInteger (JNum (of_nat (i + j)))])) [0..<k]\<rparr>"
proof (induction k arbitrary: i w)
  case 0
  then show ?case by (simp add: refresh_loop.simps)
next
  case (Suc k)
  let ?w2 = "osc_emit ''/track/#/clip/info''
                 [Typed OInteger (JNum (of_nat (t_id (tracks (song (snd (Clip_new p i w))) ! p)))),
                  Typed OInteger (JNum (of_nat i))]
                 (upd_track p (\<lambda>t. t\<lparr>t_clips := t_clips t @ [fst (Clip_new p i w)]\<rparr>)
                    (snd (Clip_new p i w)))"
  have step: "refresh_loop p (Some (i + Suc k)) i w = refresh_loop p (Some (Suc i + k)) (Suc i) ?w2"
    by (subst refresh_loop.simps) (simp add: case_prod_unfold)
  have len: "p < length (tracks (song ?w2))"
    using Suc.prems by (simp add: Clip_new_eq osc_emit_def upd_track_def)
  have plus: "(+) (Suc m) = (\<lambda>j. Suc (m + j))" for m :: nat
    by (rule ext) simp
  show ?case
    unfolding step Suc.IH [OF len]
    using Suc.prems
    by (simp add: Clip_new_eq osc_emit_def upd_track_def map_upt_Suc plus ac_simps del: upt_Suc)
qed

lemma refresh_without_clips:
  assumes "p < length (tracks (song w))" and "t_clips (tracks (song w) ! p) = []"
    and "t_numScenes (tracks (song w) ! p) = Some n"
  shows "Track_refreshClips p w =
     Inr (w\<lparr>song := (song w)\<lparr>tracks := (tracks (song w))[p := (tracks (song w) ! p)
              \<lparr>t_clips := map (\<lambda>j. length (store w) + j) [0..<n]\<rparr>]\<rparr>,
       store := store w @ map (Clip_init p) [0..<n],
       receiver := receiver w @
         concat (map (\<lambda>j. clip_table (t_id (tracks (song w) ! p)) j (length (store w) + j)) [0..<n]),
       sent := sent w @
         map (\<lambda>j. (''/track/#/clip/info'',
                    [Typed OInteger (JNum (of_nat (t_id (tracks (song w) ! p)))),
                     Typed OInteger (JNum (of_nat j))])) [0..<n]\<rparr>)"
proof -
  let ?w0 = "upd_track p (\<lambda>t. t\<lparr>t_clips := []\<rparr>) w"
  have w0: "?w0 = w"
    using assms(1,2) by (simp add: upd_track_def list_update_same_conv)
  show ?thesis
    using refresh_loop_closed [OF assms(1), of 0 n] assms(2,3)
    by (simp add: Track_refreshClips_def w0)
qed

end
